theory Spec2Isabelle
  imports Complex_Main
begin

section \<open>Data model\<close>

text \<open>
  The C type \<^verbatim>\<open>double\<close> is modelled by \<^typ>\<open>real\<close>: the theorems below are about
  the arithmetic the code writes down, not about rounding. Where a double differs from
  the real number in kind rather than in the last digit, the model says so: \<open>c_exp\<close>
  below underflows to 0 as \<^verbatim>\<open>exp\<close> does. Dimensions (\<^verbatim>\<open>long n, m, K\<close>) are natural
  numbers, class labels (\<^verbatim>\<open>long\<close>) are integers.
  A \<^verbatim>\<open>double *\<close> buffer owned by one struct is a \<^typ>\<open>real list\<close> stored in the
  record; a matrix is such a buffer in row-major order. The kernel parameter arrays,
  which are freed, allocated and copied between structs, live in an explicit memory.
\<close>

datatype KernelType = K_LINEAR | K_POLY | K_RBF | K_SIGMOID

datatype error =
    InvalidAccess        \<comment> \<open>a read, write or free outside a live block (undefined in C)\<close>
  | UnknownKernel        \<comment> \<open>\<^verbatim>\<open>exit(1)\<close> after "Unknown kernel type"\<close>
  | CholeskyFailed int   \<comment> \<open>\<^verbatim>\<open>exit(0)\<close> after a non-zero \<^verbatim>\<open>dpotrf\<close> status\<close>
  | ReallocFailed        \<comment> \<open>\<^verbatim>\<open>exit(1)\<close> after \<^verbatim>\<open>realloc\<close> returned \<^verbatim>\<open>NULL\<close>\<close>
  | WrongLabels int      \<comment> \<open>\<^verbatim>\<open>exit(0)\<close> after "wrong class labels", with the minimum\<close>

text \<open>
  The macros \<^verbatim>\<open>matrix_get(M, cols, i, j)\<close> and \<^verbatim>\<open>matrix_set(M, cols, i, j, v)\<close> are
  declared in a header that is not part of the sources at hand. They address the
  row-major cell \<^verbatim>\<open>M[i*cols + j]\<close>, the layout that \<^verbatim>\<open>msvmmaj_make_kernel\<close> also
  writes out by hand in \<^verbatim>\<open>&data->Z[i*(data->m+1)+1]\<close>.
\<close>

definition matrix_get :: "real list \<Rightarrow> nat \<Rightarrow> nat \<Rightarrow> nat \<Rightarrow> real" where
  "matrix_get M cols i j = M ! (i * cols + j)"

definition matrix_set :: "real list \<Rightarrow> nat \<Rightarrow> nat \<Rightarrow> nat \<Rightarrow> real \<Rightarrow> real list" where
  "matrix_set M cols i j v = M[i * cols + j := v]"

text \<open>Conversion of a \<^verbatim>\<open>double\<close> to \<^verbatim>\<open>long\<close> or \<^verbatim>\<open>int\<close>: truncation toward zero.\<close>

definition c_long :: "real \<Rightarrow> int" where
  "c_long x = (if 0 \<le> x then \<lfloor>x\<rfloor> else \<lceil>x\<rceil>)"

text \<open>
  \<^verbatim>\<open>realloc(buf, sz * sizeof(double))\<close>: the first \<open>min sz (length buf)\<close> cells keep
  their contents. The cells that are new have no defined contents in C: what cell \<open>k\<close>
  holds is the value \<open>fresh k\<close> of a parameter, about which nothing is assumed.
\<close>

definition c_realloc :: "(nat \<Rightarrow> real) \<Rightarrow> real list \<Rightarrow> nat \<Rightarrow> real list" where
  "c_realloc fresh buf sz = take sz buf @ map fresh [length buf..<sz]"

text \<open>
  \<^verbatim>\<open>exp\<close> of \<^verbatim>\<open>math.h\<close> on doubles. The smallest positive double is \<open>2 ^ -1074\<close>; a result
  that is not above half of it, \<open>2 ^ -1075\<close>, is returned as 0 (for arguments below
  about -745.13). Above that the model is the real exponential. For arguments above
  about 709.78 the double result is infinite, which the model does not represent.
\<close>

definition c_exp :: "real \<Rightarrow> real" where
  "c_exp x = (if exp x * 2 ^ 1075 \<le> 1 then 0 else exp x)"

subsection \<open>The structs\<close>

text \<open>
  \<^verbatim>\<open>struct GenData\<close> and \<^verbatim>\<open>struct GenModel\<close> of \<^verbatim>\<open>gensvm.h\<close>. A pointer to a kernel
  parameter array is an address in the memory below (\<open>None\<close> is \<^verbatim>\<open>NULL\<close>); so is
  \<^verbatim>\<open>long *y\<close>, which is \<^verbatim>\<open>NULL\<close> for unlabelled data. The field \<open>r\<close> belongs to the
  later declaration of \<^verbatim>\<open>GenData\<close>, which the second version of
  \<^verbatim>\<open>gensvm_predict_labels\<close> reads.
\<close>

record GenData =
  gd_K :: nat
  gd_n :: nat
  gd_m :: nat
  gd_r :: nat
  gd_y :: "int list option"
  gd_Z :: "real list"
  gd_RAW :: "real list"
  gd_J :: "real list"
  gd_kerneltype :: KernelType
  gd_kernelparam :: "nat option"

record GenModel =
  gm_weight_idx :: int
  gm_K :: nat
  gm_n :: nat
  gm_m :: nat
  gm_epsilon :: real
  gm_p :: real
  gm_kappa :: real
  gm_lambda :: real
  gm_W :: "real list"
  gm_t :: "real list"
  gm_V :: "real list"
  gm_Vbar :: "real list"
  gm_U :: "real list"
  gm_UU :: "real list"
  gm_Q :: "real list"
  gm_H :: "real list"
  gm_R :: "real list"
  gm_rho :: "real list"
  gm_training_error :: real
  gm_data_file :: string
  gm_kerneltype :: KernelType
  gm_kernelparam :: "nat option"

text \<open>
  \<^verbatim>\<open>struct MajModel\<close> and \<^verbatim>\<open>struct MajData\<close>, the structs of the \<^verbatim>\<open>msvmmaj_*\<close>
  files. Their declaration is not among the sources; the fields are those that
  \<^verbatim>\<open>msvmmaj_init.c\<close>, \<^verbatim>\<open>msvmmaj_kernel.c\<close> and \<^verbatim>\<open>util.c\<close> read and write.
\<close>

record MajModel =
  mm_weight_idx :: int
  mm_K :: nat
  mm_n :: nat
  mm_m :: nat
  mm_epsilon :: real
  mm_p :: real
  mm_kappa :: real
  mm_lambda :: real
  mm_W :: "real list"
  mm_t :: "real list"
  mm_V :: "real list"
  mm_Vbar :: "real list"
  mm_U :: "real list"
  mm_UU :: "real list"
  mm_Q :: "real list"
  mm_H :: "real list"
  mm_R :: "real list"
  mm_rho :: "real list"
  mm_data_file :: string
  mm_kerneltype :: KernelType
  mm_kernelparam :: "nat option"
  mm_use_cholesky :: bool

record MajData =
  md_K :: nat
  md_n :: nat
  md_m :: nat
  md_y :: "int list option"
  md_Z :: "real list"
  md_kerneltype :: KernelType
  md_kernelparam :: "nat option"
  md_use_cholesky :: bool

text \<open>\<^verbatim>\<open>struct GenTask\<close>, with the fields \<^verbatim>\<open>gensvm_task.c\<close> sets.\<close>

record GenTask =
  gt_kerneltype :: KernelType
  gt_weight_idx :: int
  gt_folds :: int
  gt_ID :: int
  gt_p :: real
  gt_kappa :: real
  gt_lambda :: real
  gt_epsilon :: real
  gt_kernelparam :: "nat option"
  gt_train_data :: "nat option"
  gt_test_data :: "nat option"
  gt_performance :: real

subsection \<open>Memory\<close>

text \<open>
  The memory holds the kernel parameter arrays and the datasets that tasks share.
  An address is an index into the list of blocks; a freed block is \<open>None\<close>. An
  allocation appends a block, so its address differs from the address of every block
  allocated before, live or freed.
\<close>

record memory =
  mem_arrays :: "real list option list"
  mem_data :: "GenData option list"

definition h_read :: "memory \<Rightarrow> nat option \<Rightarrow> real list option" where
  "h_read h p =
     (case p of None \<Rightarrow> None
      | Some a \<Rightarrow> if a < length (mem_arrays h) then mem_arrays h ! a else None)"

definition h_alloc :: "memory \<Rightarrow> real list \<Rightarrow> memory \<times> nat" where
  "h_alloc h xs = (h\<lparr>mem_arrays := mem_arrays h @ [Some xs]\<rparr>, length (mem_arrays h))"

definition h_write :: "memory \<Rightarrow> nat \<Rightarrow> real list \<Rightarrow> memory" where
  "h_write h a xs = h\<lparr>mem_arrays := (mem_arrays h)[a := Some xs]\<rparr>"

text \<open>\<^verbatim>\<open>free(p)\<close>: nothing for \<^verbatim>\<open>NULL\<close>, undefined for a pointer that is not live.\<close>

definition h_free :: "memory \<Rightarrow> nat option \<Rightarrow> memory option" where
  "h_free h p =
     (case p of None \<Rightarrow> Some h
      | Some a \<Rightarrow>
          if h_read h (Some a) = None then None
          else Some (h\<lparr>mem_arrays := (mem_arrays h)[a := None]\<rparr>))"

section \<open>Prediction performance: \<^verbatim>\<open>gensvm_prediction_perf\<close>\<close>

text \<open>
  The counting loop
  \<^verbatim>\<open>for (i=0; i<data->n; i++) if (data->y[i] == predy[i]) correct++;\<close>
\<close>

definition count_correct :: "nat \<Rightarrow> int list \<Rightarrow> int list \<Rightarrow> nat" where
  "count_correct n y predy =
     fold (\<lambda>i correct. if y ! i = predy ! i then correct + 1 else correct) [0..<n] 0"

text \<open>
  Reading \<^verbatim>\<open>data->y[i]\<close> with \<^verbatim>\<open>data->y\<close> \<^verbatim>\<open>NULL\<close>, or reading it or \<^verbatim>\<open>predy[i]\<close> beyond
  the end of the array, is undefined in C; for \<open>n = 0\<close> the quotient \<^verbatim>\<open>0.0/0.0\<close> is not a
  number. The model returns \<open>None\<close> in these cases.
\<close>

definition gensvm_prediction_perf :: "GenData \<Rightarrow> int list \<Rightarrow> real option" where
  "gensvm_prediction_perf data predy =
     (if gd_n data = 0 then None
      else case gd_y data of
        None \<Rightarrow> None
      | Some y \<Rightarrow>
          if length y < gd_n data \<or> length predy < gd_n data then None
          else Some (real (count_correct (gd_n data) y predy) / real (gd_n data) * 100))"

section \<open>Kernels: \<^verbatim>\<open>msvmmaj_kernel.c\<close>\<close>

definition msvmmaj_compute_rbf :: "real list \<Rightarrow> real list \<Rightarrow> real list \<Rightarrow> nat \<Rightarrow> real" where
  "msvmmaj_compute_rbf x1 x2 kernelparam n =
     (let value = fold (\<lambda>i value. value + (x1 ! i - x2 ! i) * (x1 ! i - x2 ! i)) [0..<n] 0;
          value = value * (- (kernelparam ! 0))
      in c_exp value)"

text \<open>
  \<^verbatim>\<open>pow(value, (int) kernelparam[2])\<close> is the integer power; for base 0 and a negative
  exponent C returns infinity where \<^const>\<open>power_int\<close> returns 0.
\<close>

definition msvmmaj_compute_poly :: "real list \<Rightarrow> real list \<Rightarrow> real list \<Rightarrow> nat \<Rightarrow> real" where
  "msvmmaj_compute_poly x1 x2 kernelparam n =
     (let value = fold (\<lambda>i value. value + x1 ! i * x2 ! i) [0..<n] 0;
          value = value * kernelparam ! 0;
          value = value + kernelparam ! 1
      in power_int value (c_long (kernelparam ! 2)))"

definition msvmmaj_compute_sigmoid :: "real list \<Rightarrow> real list \<Rightarrow> real list \<Rightarrow> nat \<Rightarrow> real" where
  "msvmmaj_compute_sigmoid x1 x2 kernelparam n =
     (let value = fold (\<lambda>i value. value + x1 ! i * x2 ! i) [0..<n] 0;
          value = value * kernelparam ! 0;
          value = value + kernelparam ! 1
      in tanh value)"

text \<open>
  The chain of \<^verbatim>\<open>if (model->kerneltype == ...)\<close> in the loop of
  \<^verbatim>\<open>msvmmaj_make_kernel\<close>: which function computes an entry, and how many of the
  parameters that function reads. The last branch (\<open>None\<close>) is the "Unknown kernel
  type" exit. The \<^verbatim>\<open>K_SIGMOID\<close> branch calls \<^verbatim>\<open>msvmmaj_compute_rbf\<close> in the source.
\<close>

definition kernel_of ::
  "KernelType \<Rightarrow> ((real list \<Rightarrow> real list \<Rightarrow> real list \<Rightarrow> nat \<Rightarrow> real) \<times> nat) option" where
  "kernel_of kt =
     (if kt = K_POLY then Some (msvmmaj_compute_poly, 3)
      else if kt = K_RBF then Some (msvmmaj_compute_rbf, 1)
      else if kt = K_SIGMOID then Some (msvmmaj_compute_rbf, 1)
      else None)"

text \<open>
  The loop body and the inner and outer loops that fill the Gram matrix \<open>K\<close> (lines 42
  to 63). The pointers \<^verbatim>\<open>x1 = &data->Z[i*(data->m+1)+1]\<close> are the suffixes of \<open>Z\<close> from that cell on.
\<close>

definition gram_step ::
  "(real list \<Rightarrow> real list \<Rightarrow> real list \<Rightarrow> nat \<Rightarrow> real) \<Rightarrow> real list \<Rightarrow> nat \<Rightarrow> real list
     \<Rightarrow> nat \<Rightarrow> nat \<Rightarrow> nat \<Rightarrow> real list \<Rightarrow> real list" where
  "gram_step kf Z m kp n i j K =
     (let x1 = drop (i * (m + 1) + 1) Z;
          x2 = drop (j * (m + 1) + 1) Z;
          value = kf x1 x2 kp m
      in matrix_set (matrix_set K n i j value) n j i value)"

text \<open>The value that one pass of the loop body computes for the rows \<open>i\<close> and \<open>j\<close>.\<close>

definition gram_entry ::
  "(real list \<Rightarrow> real list \<Rightarrow> real list \<Rightarrow> nat \<Rightarrow> real) \<Rightarrow> real list \<Rightarrow> nat \<Rightarrow> real list
     \<Rightarrow> nat \<Rightarrow> nat \<Rightarrow> real" where
  "gram_entry kf Z m kp i j = kf (drop (i * (m + 1) + 1) Z) (drop (j * (m + 1) + 1) Z) kp m"

definition gram_row ::
  "(real list \<Rightarrow> real list \<Rightarrow> real list \<Rightarrow> nat \<Rightarrow> real) \<Rightarrow> real list \<Rightarrow> nat \<Rightarrow> real list
     \<Rightarrow> nat \<Rightarrow> nat \<Rightarrow> real list \<Rightarrow> real list" where
  "gram_row kf Z m kp n i K = fold (gram_step kf Z m kp n i) [i..<n] K"

definition gram_loops ::
  "(real list \<Rightarrow> real list \<Rightarrow> real list \<Rightarrow> nat \<Rightarrow> real) \<Rightarrow> real list \<Rightarrow> nat \<Rightarrow> real list
     \<Rightarrow> nat \<Rightarrow> real list \<Rightarrow> real list" where
  "gram_loops kf Z m kp n K = fold (gram_row kf Z m kp n) [0..<n] K"

text \<open>
  The Gram matrix of \<^verbatim>\<open>msvmmaj_make_kernel\<close>: the buffer
  \<^verbatim>\<open>Calloc(double, n*n*sizeof(double))\<close> of zeros, filled by the loops. The loops read
  the parameters and the cells \<open>Z[i*(m+1)+1+k]\<close>, \<open>k < m\<close>, only when they run (\<open>n > 0\<close>);
  a read outside the block is \<open>InvalidAccess\<close>.
\<close>

definition make_kernel_gram :: "memory \<Rightarrow> MajModel \<Rightarrow> MajData \<Rightarrow> error + real list" where
  "make_kernel_gram h model data =
     (let n = mm_n model; m = md_m data; Z = md_Z data in
      if n = 0 then Inr (replicate (n * n * 8) 0)
      else case kernel_of (mm_kerneltype model) of
        None \<Rightarrow> Inl UnknownKernel
      | Some (kf, nparam) \<Rightarrow>
         (case h_read h (mm_kernelparam model) of
            None \<Rightarrow> Inl InvalidAccess
          | Some kp \<Rightarrow>
              if length kp < nparam \<or> (0 < m \<and> length Z < n * (m + 1)) then Inl InvalidAccess
              else Inr (gram_loops kf Z m kp n (replicate (n * n * 8) 0))))"

text \<open>
  The loops that copy the kernel matrix into the reallocated \<open>Z\<close> behind a column of
  ones (lines 78 to 84).
\<close>

definition copy_cell :: "real list \<Rightarrow> nat \<Rightarrow> nat \<Rightarrow> nat \<Rightarrow> real list \<Rightarrow> real list" where
  "copy_cell K n i j Z = matrix_set Z (n + 1) i (j + 1) (matrix_get K n i j)"

definition copy_row :: "real list \<Rightarrow> nat \<Rightarrow> nat \<Rightarrow> real list \<Rightarrow> real list" where
  "copy_row K n i Z = matrix_set (fold (copy_cell K n i) [0..<n] Z) (n + 1) i 0 1"

definition copy_kernel :: "(nat \<Rightarrow> real) \<Rightarrow> real list \<Rightarrow> nat \<Rightarrow> real list \<Rightarrow> real list" where
  "copy_kernel fresh K n Z = fold (copy_row K n) [0..<n] (c_realloc fresh Z (n * (n + 1)))"

text \<open>
  The \<^verbatim>\<open>switch\<close> that gives the data a parameter array of its own (lines 90 to 107):
  a new block with the first 3, 1 or 2 parameters of the model.
\<close>

text \<open>The sizes of the parameter arrays in the \<^verbatim>\<open>Calloc\<close> and \<^verbatim>\<open>Malloc\<close> calls, by kernel type.\<close>

definition kernelparam_len :: "KernelType \<Rightarrow> nat" where
  "kernelparam_len kt = (case kt of K_LINEAR \<Rightarrow> 0 | K_POLY \<Rightarrow> 3 | K_RBF \<Rightarrow> 1 | K_SIGMOID \<Rightarrow> 2)"

definition retain_kernelparam ::
  "memory \<Rightarrow> MajModel \<Rightarrow> nat option \<Rightarrow> error + memory \<times> nat option" where
  "retain_kernelparam h model old =
     (let copy = (\<lambda>k. case h_read h (mm_kernelparam model) of
                         None \<Rightarrow> Inl InvalidAccess
                       | Some kp \<Rightarrow>
                           if length kp < k then Inl InvalidAccess
                           else (let (h', a) = h_alloc h (take k kp) in Inr (h', Some a)))
      in case mm_kerneltype model of
           K_LINEAR \<Rightarrow> Inr (h, old)
         | K_POLY \<Rightarrow> copy 3
         | K_RBF \<Rightarrow> copy 1
         | K_SIGMOID \<Rightarrow> copy 2)"

text \<open>
  \<^verbatim>\<open>msvmmaj_make_kernel\<close>. The LAPACK wrapper \<^verbatim>\<open>dpotrf('L', n, K, n)\<close> is a parameter:
  it returns its status and the matrix it leaves in \<open>K\<close>. The parameter \<open>fresh\<close> gives the
  contents of the cells that \<^verbatim>\<open>realloc\<close> adds to \<open>Z\<close>.
\<close>

definition msvmmaj_make_kernel ::
  "(nat \<Rightarrow> real list \<Rightarrow> int \<times> real list) \<Rightarrow> (nat \<Rightarrow> real) \<Rightarrow> memory \<Rightarrow> MajModel \<Rightarrow> MajData
     \<Rightarrow> error + memory \<times> MajModel \<times> MajData" where
  "msvmmaj_make_kernel dpotrf fresh h model data =
     (if mm_kerneltype model = K_LINEAR then Inr (h, model, data)
      else
        let n = mm_n model in
        case make_kernel_gram h model data of
          Inl e \<Rightarrow> Inl e
        | Inr K \<Rightarrow>
           (let (status, K) = (if mm_use_cholesky model then dpotrf n K else (0, K)) in
            if status \<noteq> 0 then Inl (CholeskyFailed status)
            else
              let data = data\<lparr>md_Z := copy_kernel fresh K n (md_Z data)\<rparr>;
                  data = data\<lparr>md_m := n\<rparr>;
                  data = data\<lparr>md_kerneltype := mm_kerneltype model\<rparr>
              in case h_free h (md_kernelparam data) of
                   None \<Rightarrow> Inl InvalidAccess
                 | Some h \<Rightarrow>
                    (case retain_kernelparam h model (md_kernelparam data) of
                       Inl e \<Rightarrow> Inl e
                     | Inr (h, p) \<Rightarrow>
                         let data = data\<lparr>md_kernelparam := p\<rparr>;
                             data = data\<lparr>md_use_cholesky := mm_use_cholesky model\<rparr>;
                             model = model\<lparr>mm_m := n\<rparr>
                         in Inr (h, model, data))))"

section \<open>Prediction: \<^verbatim>\<open>gensvm_pred.c\<close>\<close>

text \<open>
  The two BLAS routines the prediction calls; BLAS is an external library. With
  row-major storage, no transposition, \<open>alpha = 1\<close> and \<open>beta = 0\<close>,
  \<^verbatim>\<open>cblas_dgemm(.., M, N, K, 1.0, A, lda, B, ldb, 0.0, C, N)\<close> leaves in \<open>C\<close> the \<open>M \<times> N\<close>
  product of \<open>A\<close> and \<open>B\<close>; \<^verbatim>\<open>cblas_dnrm2(N, X, 1)\<close> is the Euclidean norm of the first
  \<open>N\<close> cells of \<open>X\<close>.
\<close>

definition cblas_dgemm ::
  "nat \<Rightarrow> nat \<Rightarrow> nat \<Rightarrow> real list \<Rightarrow> nat \<Rightarrow> real list \<Rightarrow> nat \<Rightarrow> real list" where
  "cblas_dgemm M N K A lda B ldb =
     concat (map (\<lambda>i. map (\<lambda>j. sum_list (map (\<lambda>l. A ! (i * lda + l) * B ! (l * ldb + j)) [0..<K]))
                         [0..<N])
                 [0..<M])"

definition cblas_dnrm2 :: "nat \<Rightarrow> real list \<Rightarrow> real" where
  "cblas_dnrm2 N X = sqrt (sum_list (map (\<lambda>k. X ! k * X ! k) [0..<N]))"

text \<open>
  The variable \<^verbatim>\<open>min_dist\<close> is a \<^typ>\<open>real option\<close>, where \<open>None\<close> is the \<^verbatim>\<open>INFINITY\<close>
  that the second version of \<^verbatim>\<open>gensvm_predict_labels\<close> starts from; \<open>less_dist\<close> is
  the test \<^verbatim>\<open>norm < min_dist\<close>.
\<close>

definition less_dist :: "real \<Rightarrow> real option \<Rightarrow> bool" where
  "less_dist nrm min_dist = (case min_dist of None \<Rightarrow> True | Some d \<Rightarrow> nrm < d)"

text \<open>
  The distance of row \<open>i\<close> of \<open>ZV\<close> to vertex \<open>j\<close>: the loop over \<open>k\<close> that fills \<open>S\<close>, and
  the norm of \<open>S\<close>.
\<close>

definition vertex_dist :: "real list \<Rightarrow> real list \<Rightarrow> nat \<Rightarrow> nat \<Rightarrow> nat \<Rightarrow> real" where
  "vertex_dist ZV U K i j =
     (let S = map (\<lambda>k. matrix_get ZV (K - 1) i k - matrix_get U (K - 1) j k) [0..<K - 1]
      in cblas_dnrm2 (K - 1) S)"

text \<open>The body of the loop over the vertices \<open>j\<close>, on the pair \<^verbatim>\<open>(label, min_dist)\<close>.\<close>

definition vertex_step ::
  "real list \<Rightarrow> real list \<Rightarrow> nat \<Rightarrow> nat \<Rightarrow> nat \<Rightarrow> int \<times> real option \<Rightarrow> int \<times> real option" where
  "vertex_step ZV U K i j st =
     (let nrm = vertex_dist ZV U K i j
      in if less_dist nrm (snd st) then (int j + 1, Some nrm) else st)"

definition nearest_label :: "real option \<Rightarrow> real list \<Rightarrow> real list \<Rightarrow> nat \<Rightarrow> nat \<Rightarrow> int" where
  "nearest_label init ZV U K i = fst (fold (vertex_step ZV U K i) [0..<K] (0, init))"

text \<open>
  The body shared by \<^verbatim>\<open>gensvm_predict_labels_linear\<close> and the second version of
  \<^verbatim>\<open>gensvm_predict_labels\<close>, which differ in the width \<open>m\<close> they take from the data and
  in the initial \<^verbatim>\<open>min_dist\<close>. The simplex matrix \<open>U\<close> that \<^verbatim>\<open>gensvm_simplex_gen(K, U)\<close>
  leaves in its \<open>K * (K - 1)\<close> buffer is a parameter: the generator is not among the
  sources. The result is the first \<open>n\<close> cells of \<^verbatim>\<open>predy\<close>. For \<open>K = 0\<close> the buffer sizes
  \<^verbatim>\<open>K-1\<close> are negative, and reads beyond \<open>Z\<close>, \<open>V\<close> or \<open>U\<close> are undefined: the model
  returns \<open>None\<close>.

  \<^verbatim>\<open>gensvm_predict_labels_kernel\<close> runs the same search from the start value \<^verbatim>\<open>1e10\<close> on
  the rows of the cross-kernel product, but takes the norm of \<open>K\<close> cells of the buffer
  \<open>S\<close> of \<open>K - 1\<close> cells; what it reads in the last cell depends on the allocator, and the
  function is not embedded.
\<close>

definition predict_labels_body ::
  "real option \<Rightarrow> real list \<Rightarrow> nat \<Rightarrow> nat \<Rightarrow> nat \<Rightarrow> real list \<Rightarrow> real list \<Rightarrow> int list option" where
  "predict_labels_body init U n m K Z V =
     (if K = 0 \<or> length U < K * (K - 1) then None
      else if 0 < n \<and> 1 < K \<and> (length Z < n * (m + 1) \<or> length V < (m + 1) * (K - 1)) then None
      else
        let ZV = cblas_dgemm n (K - 1) (m + 1) Z (m + 1) V (K - 1)
        in Some (map (nearest_label init ZV U K) [0..<n]))"

definition gensvm_predict_labels_linear :: "real list \<Rightarrow> GenData \<Rightarrow> GenModel \<Rightarrow> int list option" where
  "gensvm_predict_labels_linear U data model =
     predict_labels_body (Some 1000000000) U (gd_n data) (gd_m data) (gm_K model)
       (gd_Z data) (gm_V model)"

definition gensvm_predict_labels :: "real list \<Rightarrow> GenData \<Rightarrow> GenModel \<Rightarrow> int list option" where
  "gensvm_predict_labels U testdata model =
     predict_labels_body None U (gd_n testdata) (gd_r testdata) (gm_K model)
       (gd_Z testdata) (gm_V model)"

section \<open>Tasks: \<^verbatim>\<open>gensvm_task.c\<close>\<close>

definition gensvm_init_task :: GenTask where
  "gensvm_init_task =
     \<lparr>gt_kerneltype = K_LINEAR, gt_weight_idx = 1, gt_folds = 10, gt_ID = - 1, gt_p = 1,
      gt_kappa = 0, gt_lambda = 1, gt_epsilon = 1 / 1000000, gt_kernelparam = None,
      gt_train_data = None, gt_test_data = None, gt_performance = 0\<rparr>"

text \<open>
  \<^verbatim>\<open>Malloc(double, k)\<close> followed by the \<open>k\<close> assignments
  \<^verbatim>\<open>nt->kernelparam[i] = t->kernelparam[i]\<close>: a new block with the first \<open>k\<close> cells of the
  source array. Reading through \<^verbatim>\<open>NULL\<close>, a freed pointer or beyond the end of the
  source array is \<open>InvalidAccess\<close>.
\<close>

definition copy_kernelparam :: "memory \<Rightarrow> nat option \<Rightarrow> nat \<Rightarrow> error + memory \<times> nat option" where
  "copy_kernelparam h src k =
     (case h_read h src of
        None \<Rightarrow> Inl InvalidAccess
      | Some kp \<Rightarrow>
          if length kp < k then Inl InvalidAccess
          else (let (h', a) = h_alloc h (take k kp) in Inr (h', Some a)))"

definition gensvm_copy_task :: "memory \<Rightarrow> GenTask \<Rightarrow> error + memory \<times> GenTask" where
  "gensvm_copy_task h t =
     (let nt = gensvm_init_task;
          nt = nt\<lparr>gt_weight_idx := gt_weight_idx t\<rparr>;
          nt = nt\<lparr>gt_folds := gt_folds t\<rparr>;
          nt = nt\<lparr>gt_ID := gt_ID t\<rparr>;
          nt = nt\<lparr>gt_p := gt_p t\<rparr>;
          nt = nt\<lparr>gt_kappa := gt_kappa t\<rparr>;
          nt = nt\<lparr>gt_lambda := gt_lambda t\<rparr>;
          nt = nt\<lparr>gt_epsilon := gt_epsilon t\<rparr>;
          nt = nt\<lparr>gt_train_data := gt_train_data t\<rparr>;
          nt = nt\<lparr>gt_test_data := gt_test_data t\<rparr>;
          nt = nt\<lparr>gt_performance := gt_performance t\<rparr>;
          nt = nt\<lparr>gt_kerneltype := gt_kerneltype t\<rparr>
      in if gt_kerneltype nt = K_LINEAR then Inr (h, nt\<lparr>gt_kernelparam := None\<rparr>)
         else if gt_kerneltype nt = K_RBF then
           (case copy_kernelparam h (gt_kernelparam t) 1 of
              Inl e \<Rightarrow> Inl e | Inr (h', p) \<Rightarrow> Inr (h', nt\<lparr>gt_kernelparam := p\<rparr>))
         else if gt_kerneltype nt = K_POLY then
           (case copy_kernelparam h (gt_kernelparam t) 3 of
              Inl e \<Rightarrow> Inl e | Inr (h', p) \<Rightarrow> Inr (h', nt\<lparr>gt_kernelparam := p\<rparr>))
         else if gt_kerneltype nt = K_SIGMOID then
           (case copy_kernelparam h (gt_kernelparam t) 2 of
              Inl e \<Rightarrow> Inl e | Inr (h', p) \<Rightarrow> Inr (h', nt\<lparr>gt_kernelparam := p\<rparr>))
         else Inr (h, nt))"

section \<open>Reading labels: \<^verbatim>\<open>msvmmaj_read_data\<close>\<close>

text \<open>
  The macros \<^verbatim>\<open>maximum\<close> and \<^verbatim>\<open>minimum\<close> come from a header that is not among the
  sources; they are taken to be the larger and the smaller of their arguments. Their
  arguments here are the \<^verbatim>\<open>long\<close> \<open>K\<close> (or \<open>min_y\<close>) and the \<^verbatim>\<open>double\<close> \<open>value\<close>, so they
  compare as doubles, and the assignment converts the result back to \<^verbatim>\<open>long\<close>.
\<close>

definition maximum :: "real \<Rightarrow> real \<Rightarrow> real" where
  "maximum a b = (if a > b then a else b)"

definition minimum :: "real \<Rightarrow> real \<Rightarrow> real" where
  "minimum a b = (if a < b then a else b)"

text \<open>
  One pass of the loop \<^verbatim>\<open>for (i=1; i<n; i++)\<close> on the triple \<^verbatim>\<open>(y, K, min_y)\<close>, for the
  label \<open>value\<close> of line \<open>i\<close>.
\<close>

definition read_label :: "real \<Rightarrow> int list \<times> int \<times> int \<Rightarrow> int list \<times> int \<times> int" where
  "read_label value st =
     (case st of (y, K, min_y) \<Rightarrow>
        (y @ [c_long value],
         c_long (maximum (real_of_int K) value),
         c_long (minimum (real_of_int min_y) value)))"

text \<open>
  The label handling of \<^verbatim>\<open>msvmmaj_read_data\<close> for a labelled data file that holds all
  its numbers (so that the final count check passes): \<open>first\<close> is the label at the end
  of the first line, \<open>rest\<close> are the labels of the lines 2 to \<open>n\<close>. The result is the
  pair of \<^verbatim>\<open>dataset->y\<close> and \<^verbatim>\<open>dataset->K\<close>. The feature matrix \<open>Z\<close> is left out.
\<close>

definition msvmmaj_read_data :: "real \<Rightarrow> real list \<Rightarrow> error + int list \<times> int" where
  "msvmmaj_read_data first rest =
     (let K = 0; min_y = 1000;
          y = [c_long first];
          (y, K, min_y) = fold read_label rest (y, K, min_y)
      in if min_y = 0 then Inr (map (\<lambda>l. l + 1) y, K + 1)
         else if min_y < 0 then Inl (WrongLabels min_y)
         else Inr (y, K))"

section \<open>Resizing a model: \<^verbatim>\<open>msvmmaj_reallocate_model\<close>\<close>

text \<open>
  A \<^verbatim>\<open>realloc\<close> whose result is checked: whether a request for \<open>sz\<close> doubles succeeds is
  up to the allocator, which is the parameter \<open>avail\<close>, as are the contents \<open>fresh\<close> of
  the cells it adds; a failure is the \<^verbatim>\<open>exit(1)\<close> of the source.
\<close>

definition realloc_checked ::
  "(nat \<Rightarrow> bool) \<Rightarrow> (nat \<Rightarrow> real) \<Rightarrow> real list \<Rightarrow> nat \<Rightarrow> error + real list" where
  "realloc_checked avail fresh buf sz =
     (if avail sz then Inr (c_realloc fresh buf sz) else Inl ReallocFailed)"

definition bind_err :: "error + 'a \<Rightarrow> ('a \<Rightarrow> error + 'b) \<Rightarrow> error + 'b" where
  "bind_err r f = (case r of Inl e \<Rightarrow> Inl e | Inr x \<Rightarrow> f x)"

text \<open>The block \<^verbatim>\<open>if (model->n != n) { ... }\<close> and the block \<^verbatim>\<open>if (model->m != m) { ... }\<close>.\<close>

definition reallocate_n ::
  "(nat \<Rightarrow> bool) \<Rightarrow> (nat \<Rightarrow> real) \<Rightarrow> MajModel \<Rightarrow> nat \<Rightarrow> error + MajModel" where
  "reallocate_n avail fresh model n =
     (let K = mm_K model in
      bind_err (realloc_checked avail fresh (mm_UU model) (n * K * (K - 1))) (\<lambda>UU.
      bind_err (realloc_checked avail fresh (mm_Q model) (n * K)) (\<lambda>Q.
      bind_err (realloc_checked avail fresh (mm_H model) (n * K)) (\<lambda>H.
      bind_err (realloc_checked avail fresh (mm_R model) (n * K)) (\<lambda>R.
      bind_err (realloc_checked avail fresh (mm_rho model) n) (\<lambda>rho.
      Inr (model\<lparr>mm_UU := UU, mm_Q := Q, mm_H := H, mm_R := R, mm_rho := rho,
                 mm_n := n\<rparr>)))))))"

definition reallocate_m ::
  "(nat \<Rightarrow> bool) \<Rightarrow> (nat \<Rightarrow> real) \<Rightarrow> MajModel \<Rightarrow> nat \<Rightarrow> error + MajModel" where
  "reallocate_m avail fresh model m =
     (let K = mm_K model in
      bind_err (realloc_checked avail fresh (mm_W model) (m * (K - 1))) (\<lambda>W.
      bind_err (realloc_checked avail fresh (mm_V model) ((m + 1) * (K - 1))) (\<lambda>V.
      bind_err (realloc_checked avail fresh (mm_Vbar model) ((m + 1) * (K - 1))) (\<lambda>Vbar.
      Inr (model\<lparr>mm_W := W, mm_V := V, mm_Vbar := Vbar, mm_m := m\<rparr>)))))"

definition msvmmaj_reallocate_model ::
  "(nat \<Rightarrow> bool) \<Rightarrow> (nat \<Rightarrow> real) \<Rightarrow> MajModel \<Rightarrow> nat \<Rightarrow> nat \<Rightarrow> error + MajModel" where
  "msvmmaj_reallocate_model avail fresh model n m =
     (if mm_n model = n \<and> mm_m model = m then Inr model
      else
        bind_err (if mm_n model \<noteq> n then reallocate_n avail fresh model n else Inr model)
          (\<lambda>model. if mm_m model \<noteq> m then reallocate_m avail fresh model m else Inr model))"

section \<open>Example inputs\<close>

text \<open>
  A model for \<open>n\<close> training instances with one feature and two classes, with the given
  kernel type and parameter pointer and no Cholesky step; and a dataset of \<open>n\<close>
  instances with one feature, whose matrix \<open>Z\<close> is given.
\<close>

definition example_model :: "nat \<Rightarrow> KernelType \<Rightarrow> nat option \<Rightarrow> MajModel" where
  "example_model n kt kp =
     \<lparr>mm_weight_idx = 1, mm_K = 2, mm_n = n, mm_m = 1, mm_epsilon = 1 / 1000000, mm_p = 1,
      mm_kappa = 0, mm_lambda = 1 / 256, mm_W = [0], mm_t = [0], mm_V = [0, 0],
      mm_Vbar = [0, 0], mm_U = [- 1 / 2, 1 / 2], mm_UU = replicate (n * 2) 0,
      mm_Q = replicate (n * 2) 0, mm_H = replicate (n * 2) 0, mm_R = replicate (n * 2) 0,
      mm_rho = replicate n 1, mm_data_file = ''data.txt'', mm_kerneltype = kt,
      mm_kernelparam = kp, mm_use_cholesky = False\<rparr>"

definition example_data :: "nat \<Rightarrow> real list \<Rightarrow> MajData" where
  "example_data n Z =
     \<lparr>md_K = 2, md_n = n, md_m = 1, md_y = None, md_Z = Z, md_kerneltype = K_LINEAR,
      md_kernelparam = None, md_use_cholesky = False\<rparr>"

text \<open>
  A fitted two-class model with one feature and the weights \<open>V\<close>, and a test dataset of
  \<open>n\<close> instances with one feature and the matrix \<open>Z\<close>.
\<close>

definition example_gen_model :: "real list \<Rightarrow> GenModel" where
  "example_gen_model V =
     \<lparr>gm_weight_idx = 1, gm_K = 2, gm_n = 4, gm_m = 1, gm_epsilon = 1 / 1000000, gm_p = 1,
      gm_kappa = 0, gm_lambda = 1 / 256, gm_W = drop 1 V, gm_t = take 1 V, gm_V = V,
      gm_Vbar = V, gm_U = [- 1 / 2, 1 / 2], gm_UU = replicate 8 0, gm_Q = replicate 8 0,
      gm_H = replicate 8 0, gm_R = replicate 8 0, gm_rho = replicate 4 1,
      gm_training_error = 0, gm_data_file = ''data.txt'', gm_kerneltype = K_LINEAR,
      gm_kernelparam = None\<rparr>"

definition example_gen_data :: "nat \<Rightarrow> real list \<Rightarrow> GenData" where
  "example_gen_data n Z =
     \<lparr>gd_K = 2, gd_n = n, gd_m = 1, gd_r = 1, gd_y = None, gd_Z = Z, gd_RAW = Z,
      gd_J = [0, 1], gd_kerneltype = K_LINEAR, gd_kernelparam = None\<rparr>"

section \<open>Properties\<close>

subsection \<open>Prediction performance\<close>

lemma count_loop_card:
  "fold (\<lambda>i c. if P i then c + 1 else c) [0..<k] (0::nat) = card {i. i < k \<and> P i}"
proof (induction k)
  case 0
  show ?case by simp
next
  case (Suc k)
  have split: "{i. i < Suc k \<and> P i} = (if P k then insert k {i. i < k \<and> P i} else {i. i < k \<and> P i})"
    by (auto simp: less_Suc_eq)
  have fin: "finite {i. i < k \<and> P i}" by simp
  show ?case using Suc.IH fin by (simp add: split)
qed

lemma count_correct_card:
  "count_correct n y predy = card {i. i < n \<and> y ! i = predy ! i}"
  unfolding count_correct_def by (rule count_loop_card)

text \<open>
  C3 (as stated): the returned hit-rate is the fraction of matching labels,
  (number of \<open>i\<close> with \<open>y[i] = predy[i]\<close>) / \<open>n\<close>. The code multiplies the fraction by
  100: for one instance that is predicted correctly it returns 100, not 1.
\<close>

theorem prediction_perf_fraction_counterexample:
  "gensvm_prediction_perf
     \<lparr>gd_K = 1, gd_n = 1, gd_m = 0, gd_r = 0, gd_y = Some [1], gd_Z = [1], gd_RAW = [],
      gd_J = [], gd_kerneltype = K_LINEAR, gd_kernelparam = None\<rparr> [1]
   \<noteq> Some (real (count_correct 1 [1] [1]) / real (1::nat))"
  by (simp add: gensvm_prediction_perf_def count_correct_def)

text \<open>
  C3 (amended): for a labelled dataset with \<open>n \<ge> 1\<close> instances and label and prediction
  vectors of at least \<open>n\<close> entries, \<^verbatim>\<open>gensvm_prediction_perf\<close> returns the percentage of
  instances whose predicted label matches the true label: 100 times the number of
  \<open>i < n\<close> with \<open>y[i] = predy[i]\<close>, divided by \<open>n\<close>.
\<close>

theorem prediction_perf_percentage:
  assumes "1 \<le> gd_n data" and "gd_y data = Some y"
    and "gd_n data \<le> length y" and "gd_n data \<le> length predy"
  shows "gensvm_prediction_perf data predy =
           Some (100 * real (card {i. i < gd_n data \<and> y ! i = predy ! i}) / real (gd_n data))"
  using assms by (simp add: gensvm_prediction_perf_def count_correct_card)

theorem prediction_perf_percentage_witness:
  "gensvm_prediction_perf
     \<lparr>gd_K = 2, gd_n = 2, gd_m = 0, gd_r = 0, gd_y = Some [1, 2], gd_Z = [1, 1], gd_RAW = [],
      gd_J = [], gd_kerneltype = K_LINEAR, gd_kernelparam = None\<rparr> [1, 1] = Some 50"
proof -
  have set_eq: "{i. i < (2::nat) \<and> [1, 2::int] ! i = [1, 1] ! i} = {0}"
    by (auto simp: less_2_cases_iff)
  show ?thesis
    using prediction_perf_percentage
      [of "\<lparr>gd_K = 2, gd_n = 2, gd_m = 0, gd_r = 0, gd_y = Some [1, 2], gd_Z = [1, 1],
            gd_RAW = [], gd_J = [], gd_kerneltype = K_LINEAR, gd_kernelparam = None\<rparr>"
          "[1, 2]" "[1, 1]"]
    by (simp add: set_eq)
qed

subsection \<open>Kernel preprocessing\<close>

lemma cell_index_inj:
  assumes "j < n" "j' < n"
  shows "(i * n + j = i' * n + j') = (i = i' \<and> j = (j'::nat))"
proof
  assume e: "i * n + j = i' * n + j'"
  have e1: "(i * n + j) div n = i" using assms(1) by simp
  have e2: "(i' * n + j') div n = i'" using assms(2) by simp
  have "i = i'" using e e1 e2 by metis
  then show "i = i' \<and> j = j'" using e by simp
qed simp

lemma cell_index_less: "i < n \<Longrightarrow> j < c \<Longrightarrow> i * c + j < n * (c::nat)"
proof -
  assume a: "i < n" "j < c"
  have "i * c + j < i * c + c" using a by simp
  also have "\<dots> = (i + 1) * c" by simp
  also have "\<dots> \<le> n * c" using a by (intro mult_le_mono1) simp
  finally show ?thesis .
qed

lemma length_gram_step: "length (gram_step kf Z m kp n i j K) = length K"
  by (simp add: gram_step_def matrix_set_def Let_def)

lemma gram_step_get:
  assumes "i < n" "j < n" "a < n" "b < n" "n * n \<le> length K"
  shows "matrix_get (gram_step kf Z m kp n i j K) n a b =
     (if (a = i \<and> b = j) \<or> (a = j \<and> b = i) then gram_entry kf Z m kp i j
      else matrix_get K n a b)"
proof -
  define v where "v = gram_entry kf Z m kp i j"
  have r: "a * n + b < length K" using cell_index_less[OF assms(3,4)] assms(5) by simp
  have p: "i * n + j < length K" using cell_index_less[OF assms(1,2)] assms(5) by simp
  have q: "j * n + i < length K" using cell_index_less[OF assms(2,1)] assms(5) by simp
  have rp: "(i * n + j = a * n + b) = (a = i \<and> b = j)"
    using cell_index_inj[OF assms(2,4), of i a] by auto
  have rq: "(j * n + i = a * n + b) = (a = j \<and> b = i)"
    using cell_index_inj[OF assms(1,4), of j a] by auto
  have eq: "gram_step kf Z m kp n i j K = (K[i * n + j := v])[j * n + i := v]"
    by (simp add: gram_step_def matrix_set_def Let_def v_def gram_entry_def)
  have get: "((K[i * n + j := v])[j * n + i := v]) ! (a * n + b) =
     (if j * n + i = a * n + b \<or> i * n + j = a * n + b then v else K ! (a * n + b))"
    using r p q by (simp add: nth_list_update)
  show ?thesis
    unfolding matrix_get_def v_def[symmetric] eq get rp rq by auto
qed

lemma length_gram_row_upto: "length (fold (gram_step kf Z m kp n i) js K) = length K"
  by (induction js arbitrary: K) (simp_all add: length_gram_step)

lemma gram_row_upto:
  assumes "i < n" "n * n \<le> length K" "a < n" "b < n" "k \<le> n"
  shows "matrix_get (fold (gram_step kf Z m kp n i) [i..<k] K) n a b =
        (if a = i \<and> i \<le> b \<and> b < k then gram_entry kf Z m kp i b
         else if b = i \<and> i \<le> a \<and> a < k then gram_entry kf Z m kp i a
         else matrix_get K n a b)"
  using assms(5)
proof (induction k)
  case 0
  then show ?case by simp
next
  case (Suc k)
  show ?case
  proof (cases "i \<le> k")
    case False
    then show ?thesis by simp
  next
    case True
    have kn: "k < n" "k \<le> n" using Suc.prems by simp_all
    have len: "n * n \<le> length (fold (gram_step kf Z m kp n i) [i..<k] K)"
      using assms(2) by (simp add: length_gram_row_upto)
    have step: "fold (gram_step kf Z m kp n i) [i..<Suc k] K =
        gram_step kf Z m kp n i k (fold (gram_step kf Z m kp n i) [i..<k] K)"
      using True by simp
    show ?thesis
      unfolding step gram_step_get[OF assms(1) kn(1) assms(3,4) len] Suc.IH[OF kn(2)]
      using True by (auto simp: less_Suc_eq)
  qed
qed

lemma gram_row_get:
  assumes "i < n" "n * n \<le> length K" "a < n" "b < n"
  shows "matrix_get (gram_row kf Z m kp n i K) n a b =
        (if a = i \<and> i \<le> b then gram_entry kf Z m kp i b
         else if b = i \<and> i \<le> a then gram_entry kf Z m kp i a
         else matrix_get K n a b)"
  unfolding gram_row_def using gram_row_upto[OF assms order_refl, of kf Z m kp] assms by simp

lemma length_gram_row: "length (gram_row kf Z m kp n i K) = length K"
  unfolding gram_row_def by (rule length_gram_row_upto)

lemma length_gram_loops_upto: "length (fold (gram_row kf Z m kp n) is K) = length K"
  by (induction "is" arbitrary: K) (simp_all add: length_gram_row)

lemma gram_loops_upto:
  assumes "n * n \<le> length K" "a < n" "b < n" "k \<le> n"
  shows "matrix_get (fold (gram_row kf Z m kp n) [0..<k] K) n a b =
        (if min a b < k then gram_entry kf Z m kp (min a b) (max a b) else matrix_get K n a b)"
  using assms(4)
proof (induction k)
  case 0
  then show ?case by simp
next
  case (Suc k)
  have kn: "k < n" "k \<le> n" using Suc.prems by simp_all
  have len: "n * n \<le> length (fold (gram_row kf Z m kp n) [0..<k] K)"
    using assms(1) by (simp add: length_gram_loops_upto)
  show ?case
    using gram_row_get[OF kn(1) len assms(2,3), of kf Z m kp] Suc.IH[OF kn(2)]
    by (auto simp: min_def max_def)
qed

lemma gram_loops_get:
  assumes "n * n \<le> length K" "a < n" "b < n"
  shows "matrix_get (gram_loops kf Z m kp n K) n a b = gram_entry kf Z m kp (min a b) (max a b)"
  unfolding gram_loops_def using gram_loops_upto[OF assms order_refl, of kf Z m kp] assms
  by (simp add: min_def)


lemma length_matrix_set: "length (matrix_set M c i j v) = length M"
  by (simp add: matrix_set_def)

lemma matrix_get_set:
  assumes "a < r" "b < c" "j < c" "r * c \<le> length M"
  shows "matrix_get (matrix_set M c i j v) c a b =
           (if a = i \<and> b = j then v else matrix_get M c a b)"
proof -
  have r: "a * c + b < length M" using cell_index_less[OF assms(1,2)] assms(4) by simp
  have e: "(i * c + j = a * c + b) = (a = i \<and> b = j)"
    using cell_index_inj[OF assms(3,2), of i a] by auto
  have get: "M[i * c + j := v] ! (a * c + b) = (if i * c + j = a * c + b then v else M ! (a * c + b))"
    using r by (simp add: nth_list_update)
  show ?thesis unfolding matrix_get_def matrix_set_def get e by simp
qed

lemma length_copy_cols:
  "length (fold (copy_cell K n i) js Z) = length Z"
  by (induction js arbitrary: Z) (simp_all add: copy_cell_def length_matrix_set)

lemma copy_cols_upto:
  assumes "a < n" "b < n + 1" "n * (n + 1) \<le> length Z" "k \<le> n"
  shows "matrix_get (fold (copy_cell K n i) [0..<k] Z)
           (n + 1) a b =
         (if a = i \<and> 1 \<le> b \<and> b \<le> k then matrix_get K n i (b - 1) else matrix_get Z (n + 1) a b)"
  using assms(4)
proof (induction k)
  case 0
  then show ?case by simp
next
  case (Suc k)
  have kn: "k + 1 < n + 1" "k \<le> n" using Suc.prems by simp_all
  have len: "n * (n + 1) \<le>
      length (fold (copy_cell K n i) [0..<k] Z)"
    using assms(3) by (simp only: length_copy_cols)
  have step: "fold (copy_cell K n i) [0..<Suc k] Z =
      matrix_set (fold (copy_cell K n i) [0..<k] Z) (n + 1) i (k + 1) (matrix_get K n i k)"
    by (simp add: copy_cell_def)
  show ?case
    unfolding step matrix_get_set[OF assms(1,2) kn(1) len] Suc.IH[OF kn(2)]
    by (auto simp: le_Suc_eq)
qed

lemma length_copy_row: "length (copy_row K n i Z) = length Z"
  unfolding copy_row_def length_matrix_set by (rule length_copy_cols)

lemma copy_row_get:
  assumes "a < n" "b < n + 1" "n * (n + 1) \<le> length Z"
  shows "matrix_get (copy_row K n i Z) (n + 1) a b =
         (if a = i then (if b = 0 then 1 else matrix_get K n i (b - 1))
          else matrix_get Z (n + 1) a b)"
proof -
  have len: "n * (n + 1) \<le>
      length (fold (copy_cell K n i) [0..<n] Z)"
    using assms(3) by (simp only: length_copy_cols)
  have z: "0 < n + 1" by simp
  show ?thesis
    unfolding copy_row_def matrix_get_set[OF assms(1,2) z len]
      copy_cols_upto[OF assms order_refl]
    using assms(2) by auto
qed

lemma length_copy_rows: "length (fold (copy_row K n) is Z) = length Z"
  by (induction "is" arbitrary: Z) (simp_all add: length_copy_row)

lemma copy_rows_upto:
  assumes "a < n" "b < n + 1" "n * (n + 1) \<le> length Z" "k \<le> n"
  shows "matrix_get (fold (copy_row K n) [0..<k] Z) (n + 1) a b =
         (if a < k then (if b = 0 then 1 else matrix_get K n a (b - 1))
          else matrix_get Z (n + 1) a b)"
  using assms(4)
proof (induction k)
  case 0
  then show ?case by simp
next
  case (Suc k)
  have kn: "k \<le> n" using Suc.prems by simp
  have len: "n * (n + 1) \<le> length (fold (copy_row K n) [0..<k] Z)"
    using assms(3) by (simp only: length_copy_rows)
  show ?case
    using copy_row_get[OF assms(1,2) len, of K k] Suc.IH[OF kn]
    by (auto simp: less_Suc_eq)
qed

lemma length_c_realloc: "length (c_realloc fresh buf sz) = sz"
  by (simp add: c_realloc_def)

lemma c_realloc_prefix: "take (length buf) (c_realloc fresh buf sz) = take sz buf"
  by (cases "length buf \<le> sz") (simp_all add: c_realloc_def)

lemma length_copy_kernel: "length (copy_kernel fresh K n Z) = n * (n + 1)"
  by (simp add: copy_kernel_def length_copy_rows length_c_realloc)

lemma copy_kernel_get:
  assumes "a < n" "b < n + 1"
  shows "matrix_get (copy_kernel fresh K n Z) (n + 1) a b =
           (if b = 0 then 1 else matrix_get K n a (b - 1))"
proof -
  have len: "n * (n + 1) \<le> length (c_realloc fresh Z (n * (n + 1)))"
    by (simp only: length_c_realloc)
  show ?thesis
    unfolding copy_kernel_def
    using copy_rows_upto[OF assms len order_refl, of K] assms(1) by simp
qed


lemma make_kernel_gram_get:
  assumes "make_kernel_gram h model data = Inr K"
    and "kernel_of (mm_kerneltype model) = Some (kf, np)"
    and "h_read h (mm_kernelparam model) = Some kp"
    and "a < mm_n model" and "b < mm_n model"
  shows "matrix_get K (mm_n model) a b =
           gram_entry kf (md_Z data) (md_m data) kp (min a b) (max a b)"
proof -
  let ?n = "mm_n model"
  have len: "?n * ?n \<le> length (replicate (?n * ?n * 8) (0::real))" by simp
  have "K = gram_loops kf (md_Z data) (md_m data) kp ?n (replicate (?n * ?n * 8) 0)"
    using assms by (auto simp: make_kernel_gram_def Let_def split: if_splits)
  then show ?thesis using gram_loops_get[OF len assms(4,5)] by simp
qed

lemma rbf_sum_nonneg:
  "0 \<le> acc \<Longrightarrow> 0 \<le> fold (\<lambda>i value. value + (x1 ! i - x2 ! i) * (x1 ! i - x2 ! i)) js (acc::real)"
  by (induction js arbitrary: acc) simp_all

lemma compute_rbf_sym: "msvmmaj_compute_rbf x1 x2 kp m = msvmmaj_compute_rbf x2 x1 kp m"
proof -
  have "(\<lambda>i (value::real). value + (x1 ! i - x2 ! i) * (x1 ! i - x2 ! i)) =
        (\<lambda>i value. value + (x2 ! i - x1 ! i) * (x2 ! i - x1 ! i))"
    by (intro ext) (simp add: algebra_simps)
  then show ?thesis by (simp add: msvmmaj_compute_rbf_def)
qed

lemma c_exp_nonneg: "0 \<le> c_exp x"
  by (simp add: c_exp_def)

lemma c_exp_le_one: "x \<le> 0 \<Longrightarrow> c_exp x \<le> 1"
  by (simp add: c_exp_def)

lemma two_power_gt_one: "\<not> (2::real) ^ 1075 \<le> 1"
proof -
  have "(1::real) < 2 ^ 1075" by (rule one_less_power) simp_all
  then show ?thesis by simp
qed

lemma c_exp_zero: "c_exp 0 = 1"
  by (simp add: c_exp_def two_power_gt_one)

lemma c_exp_one: "c_exp 1 = exp 1"
proof -
  have a: "(1::real) < 2 ^ 1075" by (rule one_less_power) simp_all
  have b: "(1::real) \<le> exp 1" by simp
  have "1 * 1 < exp 1 * (2::real) ^ 1075"
    using a b by (intro mult_le_less_imp_less) simp_all
  then show ?thesis by (simp add: c_exp_def)
qed

lemma c_exp_neg_one: "c_exp (- 1) = exp (- 1)"
proof -
  have e: "exp (1::real) \<le> 3" by (rule exp_le)
  have p: "(3::real) < 2 ^ 1075"
  proof -
    have "(2::real) ^ 2 \<le> 2 ^ 1075" by (rule power_increasing) simp_all
    then show ?thesis by simp
  qed
  have "exp (1::real) < 2 ^ 1075" using e p by simp
  then have "1 < exp (- 1) * (2::real) ^ 1075"
    by (simp add: exp_minus field_simps)
  then show ?thesis by (simp add: c_exp_def)
qed

lemma c_exp_underflow: "c_exp (- 1600) = 0"
proof -
  have two: "(2::real) \<le> exp 1" using exp_ge_add_one_self[of "1::real"] by simp
  have "(2::real) ^ 1075 \<le> 2 ^ 1600" by (rule power_increasing) simp_all
  also have "\<dots> \<le> exp 1 ^ 1600" using two by (intro power_mono) simp_all
  also have "\<dots> = exp (of_nat 1600 * 1)" by (simp only: exp_of_nat_mult)
  also have "\<dots> = exp (1600::real)" by simp
  finally have "(2::real) ^ 1075 \<le> exp 1600" .
  then have "exp (- 1600) * (2::real) ^ 1075 \<le> 1"
    by (simp add: exp_minus field_simps)
  then show ?thesis by (simp add: c_exp_def)
qed

lemma compute_rbf_range:
  assumes "0 \<le> kp ! 0"
  shows "0 \<le> msvmmaj_compute_rbf x1 x2 kp m \<and> msvmmaj_compute_rbf x1 x2 kp m \<le> 1"
proof -
  have "0 \<le> fold (\<lambda>i value. value + (x1 ! i - x2 ! i) * (x1 ! i - x2 ! i)) [0..<m] 0"
    by (rule rbf_sum_nonneg) simp
  then have "0 \<le> fold (\<lambda>i value. value + (x1 ! i - x2 ! i) * (x1 ! i - x2 ! i)) [0..<m] 0 * kp ! 0"
    using assms by simp
  then have "fold (\<lambda>i value. value + (x1 ! i - x2 ! i) * (x1 ! i - x2 ! i)) [0..<m] 0
      * (- (kp ! 0)) \<le> 0"
    by simp
  then show ?thesis
    unfolding msvmmaj_compute_rbf_def Let_def using c_exp_nonneg c_exp_le_one by blast
qed

text \<open>
  C4 (as stated): for every parameter \<open>gamma\<close> the RBF kernel value lies in (0, 1]. For
  \<open>gamma = -1\<close> and the instances \<open>(0)\<close> and \<open>(1)\<close> the code returns \<open>exp 1\<close>, which is above
  1; and for \<open>gamma = 1\<close> and the instances \<open>(0)\<close> and \<open>(40)\<close> it returns the double nearest
  to \<open>exp (-1600)\<close>, which is 0 and not above 0.
\<close>

theorem rbf_negative_gamma_counterexample:
  "\<not> msvmmaj_compute_rbf [0] [1] [-1] 1 \<le> 1 \<and> \<not> 0 < msvmmaj_compute_rbf [0] [40] [1] 1"
  by (simp add: msvmmaj_compute_rbf_def c_exp_one c_exp_underflow)

text \<open>
  C4 (amended): for every pair of instances and every RBF parameter \<open>gamma > 0\<close>, the
  RBF kernel value is symmetric and lies in [0, 1], the value 0 being reached when
  \<open>exp\<close> underflows; and the Gram matrix that \<^verbatim>\<open>msvmmaj_make_kernel\<close> builds for an RBF
  model with such a \<open>gamma\<close> satisfies \<open>K[i][j] = K[j][i]\<close> for \<open>i, j < n\<close>, with every entry
  in [0, 1]. (For \<open>gamma = 0\<close> a squared distance that overflows makes the product
  \<^verbatim>\<open>value * -gamma\<close> not a number, which is why \<open>gamma = 0\<close> is left out.)
\<close>

theorem rbf_symmetric_unit_interval:
  assumes "mm_kerneltype model = K_RBF"
    and "h_read h (mm_kernelparam model) = Some kp"
    and "0 < kp ! 0"
    and "make_kernel_gram h model data = Inr K"
    and "i < mm_n model" and "j < mm_n model"
  shows "msvmmaj_compute_rbf x1 x2 kp m = msvmmaj_compute_rbf x2 x1 kp m
       \<and> 0 \<le> msvmmaj_compute_rbf x1 x2 kp m \<and> msvmmaj_compute_rbf x1 x2 kp m \<le> 1
       \<and> matrix_get K (mm_n model) i j = matrix_get K (mm_n model) j i
       \<and> 0 \<le> matrix_get K (mm_n model) i j \<and> matrix_get K (mm_n model) i j \<le> 1"
proof -
  have ga: "0 \<le> kp ! 0" using assms(3) by simp
  have kf: "kernel_of (mm_kerneltype model) = Some (msvmmaj_compute_rbf, 1)"
    using assms(1) by (simp add: kernel_of_def)
  have ij: "matrix_get K (mm_n model) i j =
      gram_entry msvmmaj_compute_rbf (md_Z data) (md_m data) kp (min i j) (max i j)"
    by (rule make_kernel_gram_get[OF assms(4) kf assms(2,5,6)])
  have ji: "matrix_get K (mm_n model) j i =
      gram_entry msvmmaj_compute_rbf (md_Z data) (md_m data) kp (min j i) (max j i)"
    by (rule make_kernel_gram_get[OF assms(4) kf assms(2,6,5)])
  have sym: "matrix_get K (mm_n model) i j = matrix_get K (mm_n model) j i"
    unfolding ij ji by (simp add: min.commute max.commute)
  have rng: "0 \<le> matrix_get K (mm_n model) i j \<and> matrix_get K (mm_n model) i j \<le> 1"
    unfolding ij gram_entry_def by (rule compute_rbf_range[OF ga])
  show ?thesis using compute_rbf_sym[of x1 x2 kp m] compute_rbf_range[OF ga, of x1 x2 m] sym rng
    by simp
qed

text \<open>
  C6: when the kernel type of the model is linear, \<^verbatim>\<open>msvmmaj_make_kernel\<close> returns at
  once: the data, the model and the memory of parameter arrays are all unchanged.
\<close>

theorem make_kernel_linear_noop:
  assumes "mm_kerneltype model = K_LINEAR"
  shows "msvmmaj_make_kernel dpotrf fresh h model data = Inr (h, model, data)"
  using assms by (simp add: msvmmaj_make_kernel_def)


lemma h_free_length:
  "h_free h p = Some h1 \<Longrightarrow> length (mem_arrays h1) = length (mem_arrays h)"
  by (auto simp: h_free_def split: option.splits if_splits)

lemma retain_kernelparam_Inr:
  assumes "retain_kernelparam h1 model old = Inr (h', p)"
    and "mm_kerneltype model \<noteq> K_LINEAR"
  shows "\<exists>kp. h_read h1 (mm_kernelparam model) = Some kp
           \<and> kernelparam_len (mm_kerneltype model) \<le> length kp
           \<and> p = Some (length (mem_arrays h1))
           \<and> h' = h1\<lparr>mem_arrays := mem_arrays h1 @
                       [Some (take (kernelparam_len (mm_kerneltype model)) kp)]\<rparr>"
  using assms
  by (cases "mm_kerneltype model")
     (auto simp: retain_kernelparam_def kernelparam_len_def h_alloc_def Let_def not_less
             Suc_le_eq split: option.splits if_splits)

lemma make_kernel_Inr:
  assumes "mm_kerneltype model \<noteq> K_LINEAR"
    and "msvmmaj_make_kernel dpotrf fresh h model data = Inr (h', model', data')"
  shows "\<exists>K h1 p. h_free h (md_kernelparam data) = Some h1
           \<and> retain_kernelparam h1 model (md_kernelparam data) = Inr (h', p)
           \<and> model' = model\<lparr>mm_m := mm_n model\<rparr>
           \<and> data' = data\<lparr>md_Z := copy_kernel fresh K (mm_n model) (md_Z data), md_m := mm_n model,
                            md_kerneltype := mm_kerneltype model, md_kernelparam := p,
                            md_use_cholesky := mm_use_cholesky model\<rparr>"
  using assms
  by (auto simp: msvmmaj_make_kernel_def Let_def
           split: if_splits sum.splits option.splits prod.splits)

text \<open>
  C5: when \<^verbatim>\<open>msvmmaj_make_kernel\<close> returns for a non-linear kernel on a dataset of \<open>n\<close>
  instances (\<open>n\<close> being also \<^verbatim>\<open>model->n\<close>), the matrix \<open>Z\<close> of the data has \<open>n * (n + 1)\<close>
  cells with a first column of ones, \<^verbatim>\<open>data->m\<close> and \<^verbatim>\<open>model->m\<close> are \<open>n\<close>, the kernel type
  of the data is that of the model, and the parameter pointer of the data is a block
  that did not exist before, different from the model's, holding the first 1 (RBF),
  2 (sigmoid) or 3 (polynomial) parameters of the model.
\<close>

theorem make_kernel_nonlinear_result:
  assumes "mm_kerneltype model \<noteq> K_LINEAR"
    and "md_n data = mm_n model"
    and "msvmmaj_make_kernel dpotrf fresh h model data = Inr (h', model', data')"
  shows "length (md_Z data') = md_n data * (md_n data + 1)
       \<and> (\<forall>i < md_n data. matrix_get (md_Z data') (md_n data + 1) i 0 = 1)
       \<and> md_m data' = md_n data \<and> mm_m model' = md_n data
       \<and> md_kerneltype data' = mm_kerneltype model'
       \<and> (\<exists>a kp. md_kernelparam data' = Some a
             \<and> length (mem_arrays h) \<le> a
             \<and> mm_kernelparam model' \<noteq> Some a
             \<and> h_read h' (mm_kernelparam model') = Some kp
             \<and> kernelparam_len (mm_kerneltype model') \<le> length kp
             \<and> h_read h' (Some a) = Some (take (kernelparam_len (mm_kerneltype model')) kp)
             \<and> length (take (kernelparam_len (mm_kerneltype model')) kp) =
                 kernelparam_len (mm_kerneltype model'))"
proof -
  let ?n = "mm_n model"
  let ?k = "kernelparam_len (mm_kerneltype model)"
  obtain K h1 p where
    fr: "h_free h (md_kernelparam data) = Some h1" and
    rt: "retain_kernelparam h1 model (md_kernelparam data) = Inr (h', p)" and
    mo: "model' = model\<lparr>mm_m := ?n\<rparr>" and
    da: "data' = data\<lparr>md_Z := copy_kernel fresh K ?n (md_Z data), md_m := ?n,
                      md_kerneltype := mm_kerneltype model, md_kernelparam := p,
                      md_use_cholesky := mm_use_cholesky model\<rparr>"
    using make_kernel_Inr[OF assms(1,3)] by blast
  obtain kp where
    rd: "h_read h1 (mm_kernelparam model) = Some kp" and
    ln: "?k \<le> length kp" and
    pa: "p = Some (length (mem_arrays h1))" and
    h': "h' = h1\<lparr>mem_arrays := mem_arrays h1 @ [Some (take ?k kp)]\<rparr>"
    using retain_kernelparam_Inr[OF rt assms(1)] by blast
  have len1: "length (mem_arrays h1) = length (mem_arrays h)" by (rule h_free_length[OF fr])
  have Z: "md_Z data' = copy_kernel fresh K ?n (md_Z data)" by (simp add: da)
  have c1: "length (md_Z data') = md_n data * (md_n data + 1)"
    unfolding Z assms(2) by (rule length_copy_kernel)
  have c2: "\<forall>i < md_n data. matrix_get (md_Z data') (md_n data + 1) i 0 = 1"
    unfolding Z assms(2) using copy_kernel_get[of _ ?n 0 fresh K "md_Z data"] by simp
  have c3: "md_m data' = md_n data \<and> mm_m model' = md_n data
       \<and> md_kerneltype data' = mm_kerneltype model'"
    by (simp add: da mo assms(2))
  have ptr: "\<exists>q. mm_kernelparam model = Some q \<and> q < length (mem_arrays h1)"
    using rd by (auto simp: h_read_def split: option.splits if_splits)
  have rd': "h_read h' (mm_kernelparam model) = Some kp"
    using rd ptr by (auto simp: h_read_def h' nth_append)
  have new: "h_read h' (Some (length (mem_arrays h1))) = Some (take ?k kp)"
    by (simp add: h_read_def h')
  have c4: "md_kernelparam data' = Some (length (mem_arrays h))
       \<and> mm_kernelparam model' \<noteq> Some (length (mem_arrays h))
       \<and> h_read h' (mm_kernelparam model') = Some kp
       \<and> kernelparam_len (mm_kerneltype model') \<le> length kp
       \<and> h_read h' (Some (length (mem_arrays h))) =
           Some (take (kernelparam_len (mm_kerneltype model')) kp)
       \<and> length (take (kernelparam_len (mm_kerneltype model')) kp) =
           kernelparam_len (mm_kerneltype model')"
    unfolding len1[symmetric] using ptr rd' ln new by (auto simp: da mo pa)
  show ?thesis using c1 c2 c3 c4 by blast
qed


lemma upt_2: "[0..<2] = [0, Suc 0]" "[Suc 0..<2] = [Suc 0]"
  by (simp_all add: upt_rec)

lemma replicate_2: "replicate 2 x = [x, x]"
  by (simp add: numeral_2_eq_2)

lemma make_kernel_returns:
  assumes "mm_kerneltype model \<noteq> K_LINEAR"
    and "h_read h (mm_kernelparam model) = Some kp"
    and "3 \<le> length kp"
    and "mm_n model * (md_m data + 1) \<le> length (md_Z data)"
    and "md_kernelparam data = None"
    and "\<not> mm_use_cholesky model"
  shows "\<exists>h' model' data'. msvmmaj_make_kernel dpotrf fresh h model data = Inr (h', model', data')"
proof -
  obtain kf np where kf: "kernel_of (mm_kerneltype model) = Some (kf, np)" and np: "np \<le> 3"
    using assms(1) by (cases "mm_kerneltype model") (auto simp: kernel_of_def)
  have gram: "\<exists>K. make_kernel_gram h model data = Inr K"
    using kf np assms(2,3,4) by (auto simp: make_kernel_gram_def Let_def)
  have fr: "h_free h (md_kernelparam data) = Some h"
    using assms(5) by (simp add: h_free_def)
  have rt: "\<exists>h' p. retain_kernelparam h model None = Inr (h', p)"
    using assms(1,2,3)
    by (cases "mm_kerneltype model") (auto simp: retain_kernelparam_def h_alloc_def Let_def)
  show ?thesis
    using assms(1,5,6) gram fr rt
    by (auto simp: msvmmaj_make_kernel_def Let_def)
qed

theorem rbf_symmetric_unit_interval_witness:
  "make_kernel_gram \<lparr>mem_arrays = [Some [1]], mem_data = []\<rparr>
       (example_model 2 K_RBF (Some 0)) (example_data 2 [1, 1, 1, 2])
     = Inr (gram_loops msvmmaj_compute_rbf [1, 1, 1, 2] 1 [1] 2 (replicate (2 * 2 * 8) 0))
   \<and> matrix_get (gram_loops msvmmaj_compute_rbf [1, 1, 1, 2] 1 [1] 2 (replicate (2 * 2 * 8) 0)) 2 0 1
     = matrix_get (gram_loops msvmmaj_compute_rbf [1, 1, 1, 2] 1 [1] 2 (replicate (2 * 2 * 8) 0)) 2 1 0
   \<and> 0 \<le> matrix_get (gram_loops msvmmaj_compute_rbf [1, 1, 1, 2] 1 [1] 2 (replicate (2 * 2 * 8) 0)) 2 0 1
   \<and> matrix_get (gram_loops msvmmaj_compute_rbf [1, 1, 1, 2] 1 [1] 2 (replicate (2 * 2 * 8) 0)) 2 0 1 \<le> 1
   \<and> msvmmaj_compute_rbf [1] [2] [1] 1 = msvmmaj_compute_rbf [2] [1] [1] 1"
proof -
  let ?h = "\<lparr>mem_arrays = [Some [1]], mem_data = []\<rparr>"
  let ?K = "gram_loops msvmmaj_compute_rbf [1, 1, 1, 2] 1 [1] 2 (replicate (2 * 2 * 8) 0)"
  have kt: "mm_kerneltype (example_model 2 K_RBF (Some 0)) = K_RBF"
    by (simp add: example_model_def)
  have rd: "h_read ?h (mm_kernelparam (example_model 2 K_RBF (Some 0))) = Some [1]"
    by (simp add: example_model_def h_read_def)
  have ga: "(0::real) < [1] ! 0" by simp
  have gr: "make_kernel_gram ?h (example_model 2 K_RBF (Some 0)) (example_data 2 [1, 1, 1, 2])
      = Inr ?K"
    by (simp add: make_kernel_gram_def kernel_of_def h_read_def example_model_def
        example_data_def)
  have n: "(0::nat) < mm_n (example_model 2 K_RBF (Some 0))"
      "(1::nat) < mm_n (example_model 2 K_RBF (Some 0))"
    by (simp_all add: example_model_def)
  show ?thesis
    using rbf_symmetric_unit_interval[OF kt rd ga gr n, of "[1]" "[2]" 1] gr
    by (simp add: example_model_def)
qed

theorem make_kernel_linear_noop_witness:
  "msvmmaj_make_kernel (\<lambda>n K. (0, K)) (\<lambda>k. 0) \<lparr>mem_arrays = [], mem_data = []\<rparr>
      (example_model 2 K_LINEAR None) (example_data 2 [1, 1, 1, 2])
   = Inr (\<lparr>mem_arrays = [], mem_data = []\<rparr>, example_model 2 K_LINEAR None,
          example_data 2 [1, 1, 1, 2])"
proof -
  have kt: "mm_kerneltype (example_model 2 K_LINEAR None) = K_LINEAR"
    by (simp add: example_model_def)
  show ?thesis by (rule make_kernel_linear_noop[OF kt])
qed

lemma c_realloc_Z_eval:
  "c_realloc fresh [a, b, c, d] 6 = [a, b, c, d, fresh 4, fresh 5]"
  by (simp add: c_realloc_def upt_rec eval_nat_numeral)

lemmas make_kernel_eval_defs =
  msvmmaj_make_kernel_def make_kernel_gram_def kernel_of_def h_read_def h_free_def
  retain_kernelparam_def h_alloc_def gram_loops_def gram_row_def gram_step_def
  copy_kernel_def copy_row_def copy_cell_def c_realloc_Z_eval matrix_set_def matrix_get_def
  msvmmaj_compute_rbf_def c_exp_zero c_exp_neg_one example_model_def example_data_def upt_2
  replicate_2 Let_def

lemma make_kernel_rbf_eval:
  "msvmmaj_make_kernel dpotrf fresh \<lparr>mem_arrays = [Some [1]], mem_data = []\<rparr>
      (example_model 2 K_RBF (Some 0)) (example_data 2 [1, 1, 1, 2])
   = Inr (\<lparr>mem_arrays = [Some [1], Some [1]], mem_data = []\<rparr>,
          (example_model 2 K_RBF (Some 0))\<lparr>mm_m := 2\<rparr>,
          (example_data 2 [1, 1, exp (- 1), 1, exp (- 1), 1])
            \<lparr>md_m := 2, md_kerneltype := K_RBF, md_kernelparam := Some 1\<rparr>)"
  by (simp add: make_kernel_eval_defs)

theorem make_kernel_nonlinear_result_witness:
  "\<exists>h' model' data'.
     msvmmaj_make_kernel (\<lambda>n K. (0, K)) (\<lambda>k. 0) \<lparr>mem_arrays = [Some [1]], mem_data = []\<rparr>
        (example_model 2 K_RBF (Some 0)) (example_data 2 [1, 1, 1, 2])
       = Inr (h', model', data')
     \<and> length (md_Z data') = 6 \<and> matrix_get (md_Z data') 3 0 0 = 1
     \<and> matrix_get (md_Z data') 3 1 0 = 1 \<and> md_m data' = 2 \<and> mm_m model' = 2
     \<and> md_kerneltype data' = K_RBF \<and> md_kernelparam data' = Some 1
     \<and> h_read h' (Some 1) = Some [1]"
proof -
  have kt: "mm_kerneltype (example_model 2 K_RBF (Some 0)) \<noteq> K_LINEAR"
    by (simp add: example_model_def)
  have n: "md_n (example_data 2 [1, 1, 1, 2]) = mm_n (example_model 2 K_RBF (Some 0))"
    by (simp add: example_model_def example_data_def)
  note ev = make_kernel_rbf_eval[of "\<lambda>n K. (0, K)" "\<lambda>k. 0"]
  show ?thesis
    using make_kernel_nonlinear_result[OF kt n ev] ev
    by (simp add: example_model_def example_data_def h_read_def matrix_get_def)
qed

text \<open>
  C1: for a sigmoid kernel descriptor the Gram matrix should hold
  \<open>tanh (gamma * \<langle>x_i, x_j\<rangle> + coef)\<close>, the value of \<^verbatim>\<open>msvmmaj_compute_sigmoid\<close>. On two
  instances with the features 1 and 2 and the parameters \<open>gamma = 1\<close>, \<open>coef = 0\<close> the
  code stores the RBF values 1 and \<open>exp (-1)\<close> instead: entry (0, 0) is 1, where the
  sigmoid kernel gives \<open>tanh 1 < 1\<close>.
\<close>

theorem make_kernel_sigmoid_stores_rbf:
  "msvmmaj_make_kernel dpotrf fresh \<lparr>mem_arrays = [Some [1, 0]], mem_data = []\<rparr>
      (example_model 2 K_SIGMOID (Some 0)) (example_data 2 [1, 1, 1, 2])
   = Inr (\<lparr>mem_arrays = [Some [1, 0], Some [1, 0]], mem_data = []\<rparr>,
          (example_model 2 K_SIGMOID (Some 0))\<lparr>mm_m := 2\<rparr>,
          (example_data 2 [1, 1, exp (- 1), 1, exp (- 1), 1])
            \<lparr>md_m := 2, md_kerneltype := K_SIGMOID, md_kernelparam := Some 1\<rparr>)
   \<and> matrix_get [1, 1, exp (- 1), 1, exp (- 1), 1] 3 0 1 = 1
   \<and> msvmmaj_compute_sigmoid (drop 1 [1, 1, 1, 2]) (drop 1 [1, 1, 1, 2]) [1, 0] 1 = tanh 1
   \<and> tanh (1::real) < 1"
  by (simp add: make_kernel_eval_defs msvmmaj_compute_sigmoid_def tanh_real_lt_1)

subsection \<open>Prediction\<close>

lemma vertex_loop_invariant:
  "\<exists>lab md. fold (vertex_step ZV U K i) [0..<k] (0, init) = (lab, md) \<and>
     ((lab = 0 \<and> md = init \<and> (\<forall>j<k. \<not> less_dist (vertex_dist ZV U K i j) init))
      \<or> (\<exists>j<k. lab = int j + 1 \<and> md = Some (vertex_dist ZV U K i j)
            \<and> less_dist (vertex_dist ZV U K i j) init
            \<and> (\<forall>j'<k. vertex_dist ZV U K i j \<le> vertex_dist ZV U K i j')
            \<and> (\<forall>j'<j. vertex_dist ZV U K i j < vertex_dist ZV U K i j')))"
proof (induction k)
  case 0
  show ?case by simp
next
  case (Suc k)
  let ?d = "vertex_dist ZV U K i"
  obtain lab md where st: "fold (vertex_step ZV U K i) [0..<k] (0, init) = (lab, md)"
    and inv: "(lab = 0 \<and> md = init \<and> (\<forall>j<k. \<not> less_dist (?d j) init))
      \<or> (\<exists>j<k. lab = int j + 1 \<and> md = Some (?d j) \<and> less_dist (?d j) init
            \<and> (\<forall>j'<k. ?d j \<le> ?d j') \<and> (\<forall>j'<j. ?d j < ?d j'))"
    using Suc.IH by blast
  have step: "fold (vertex_step ZV U K i) [0..<Suc k] (0, init) =
      (if less_dist (?d k) md then (int k + 1, Some (?d k)) else (lab, md))"
    by (simp add: st vertex_step_def Let_def)
  from inv show ?case
  proof
    assume a: "lab = 0 \<and> md = init \<and> (\<forall>j<k. \<not> less_dist (?d j) init)"
    show ?thesis
    proof (cases "less_dist (?d k) init")
      case True
      have none: "\<forall>j<k. ?d k < ?d j"
        using a True by (auto simp: less_dist_def split: option.splits)
      have "\<forall>j'<Suc k. ?d k \<le> ?d j'" using none by (auto simp: less_Suc_eq)
      then show ?thesis unfolding step using a True none by auto
    next
      case False
      then show ?thesis unfolding step using a by (auto simp: less_Suc_eq)
    qed
  next
    assume "\<exists>j<k. lab = int j + 1 \<and> md = Some (?d j) \<and> less_dist (?d j) init
            \<and> (\<forall>j'<k. ?d j \<le> ?d j') \<and> (\<forall>j'<j. ?d j < ?d j')"
    then obtain j where j: "j < k" "lab = int j + 1" "md = Some (?d j)" "less_dist (?d j) init"
      "\<forall>j'<k. ?d j \<le> ?d j'" "\<forall>j'<j. ?d j < ?d j'" by blast
    show ?thesis
    proof (cases "?d k < ?d j")
      case True
      have 1: "less_dist (?d k) init"
        using j(4) True by (auto simp: less_dist_def split: option.splits)
      have 2: "\<forall>j'<Suc k. ?d k \<le> ?d j'" using j(5) True by (auto simp: less_Suc_eq)
      have 3: "\<forall>j'<k. ?d k < ?d j'" using j(5) True by fastforce
      show ?thesis unfolding step using True j(3) 1 2 3 by (auto simp: less_dist_def)
    next
      case False
      have 2: "\<forall>j'<Suc k. ?d j \<le> ?d j'" using j(5) False by (auto simp: less_Suc_eq)
      have "j < Suc k" using j(1) by simp
      then show ?thesis unfolding step using False j 2 by (auto simp: less_dist_def)
    qed
  qed
qed

lemma nearest_label_infinity:
  assumes "0 < K"
  shows "\<exists>j<K. nearest_label None ZV U K i = int j + 1
            \<and> (\<forall>j'<K. vertex_dist ZV U K i j \<le> vertex_dist ZV U K i j')
            \<and> (\<forall>j'<j. vertex_dist ZV U K i j < vertex_dist ZV U K i j')"
  using vertex_loop_invariant[of ZV U K i K None] assms
  by (auto simp: nearest_label_def less_dist_def)

lemma nearest_label_sentinel:
  "(nearest_label (Some c) ZV U K i = 0 \<and> (\<forall>j<K. c \<le> vertex_dist ZV U K i j))
   \<or> (\<exists>j<K. nearest_label (Some c) ZV U K i = int j + 1
            \<and> vertex_dist ZV U K i j < c
            \<and> (\<forall>j'<K. vertex_dist ZV U K i j \<le> vertex_dist ZV U K i j')
            \<and> (\<forall>j'<j. vertex_dist ZV U K i j < vertex_dist ZV U K i j'))"
  using vertex_loop_invariant[of ZV U K i K "Some c"]
  by (auto simp: nearest_label_def less_dist_def not_less)

lemma predict_labels_body_nth:
  assumes "predict_labels_body init U n m K Z V = Some predy" and "i < n"
  shows "length predy = n
       \<and> predy ! i = nearest_label init (cblas_dgemm n (K - 1) (m + 1) Z (m + 1) V (K - 1)) U K i"
  using assms by (auto simp: predict_labels_body_def Let_def split: if_splits)

lemma predict_labels_body_K:
  "predict_labels_body init U n m K Z V = Some predy \<Longrightarrow> 0 < K"
  by (auto simp: predict_labels_body_def split: if_splits)

lemma predict_labels_nearest_vertex:
  assumes "gensvm_predict_labels U testdata model = Some predy" and "i < gd_n testdata"
  shows "\<exists>j < gm_K model. predy ! i = int j + 1
     \<and> (\<forall>j' < gm_K model.
           vertex_dist (cblas_dgemm (gd_n testdata) (gm_K model - 1) (gd_r testdata + 1)
              (gd_Z testdata) (gd_r testdata + 1) (gm_V model) (gm_K model - 1)) U (gm_K model) i j
         \<le> vertex_dist (cblas_dgemm (gd_n testdata) (gm_K model - 1) (gd_r testdata + 1)
              (gd_Z testdata) (gd_r testdata + 1) (gm_V model) (gm_K model - 1)) U (gm_K model) i j')
     \<and> (\<forall>j' < j.
           vertex_dist (cblas_dgemm (gd_n testdata) (gm_K model - 1) (gd_r testdata + 1)
              (gd_Z testdata) (gd_r testdata + 1) (gm_V model) (gm_K model - 1)) U (gm_K model) i j
         < vertex_dist (cblas_dgemm (gd_n testdata) (gm_K model - 1) (gd_r testdata + 1)
              (gd_Z testdata) (gd_r testdata + 1) (gm_V model) (gm_K model - 1)) U (gm_K model) i j')"
proof -
  have b: "predict_labels_body None U (gd_n testdata) (gd_r testdata) (gm_K model)
      (gd_Z testdata) (gm_V model) = Some predy"
    using assms(1) by (simp add: gensvm_predict_labels_def)
  show ?thesis
    using predict_labels_body_nth[OF b assms(2)]
      nearest_label_infinity[OF predict_labels_body_K[OF b]]
    by simp
qed

lemma predict_labels_in_range:
  assumes "gensvm_predict_labels U testdata model = Some predy" and "i < gd_n testdata"
  shows "1 \<le> predy ! i \<and> predy ! i \<le> int (gm_K model)"
  using predict_labels_nearest_vertex[OF assms] by auto

lemma predict_labels_linear_nearest_or_zero:
  assumes "gensvm_predict_labels_linear U data model = Some predy" and "i < gd_n data"
  shows "(predy ! i = 0 \<and> (\<forall>j < gm_K model. 1000000000 \<le>
            vertex_dist (cblas_dgemm (gd_n data) (gm_K model - 1) (gd_m data + 1)
              (gd_Z data) (gd_m data + 1) (gm_V model) (gm_K model - 1)) U (gm_K model) i j))
     \<or> (\<exists>j < gm_K model. predy ! i = int j + 1
         \<and> (\<forall>j' < gm_K model.
           vertex_dist (cblas_dgemm (gd_n data) (gm_K model - 1) (gd_m data + 1)
              (gd_Z data) (gd_m data + 1) (gm_V model) (gm_K model - 1)) U (gm_K model) i j
         \<le> vertex_dist (cblas_dgemm (gd_n data) (gm_K model - 1) (gd_m data + 1)
              (gd_Z data) (gd_m data + 1) (gm_V model) (gm_K model - 1)) U (gm_K model) i j')
         \<and> (\<forall>j' < j.
           vertex_dist (cblas_dgemm (gd_n data) (gm_K model - 1) (gd_m data + 1)
              (gd_Z data) (gd_m data + 1) (gm_V model) (gm_K model - 1)) U (gm_K model) i j
         < vertex_dist (cblas_dgemm (gd_n data) (gm_K model - 1) (gd_m data + 1)
              (gd_Z data) (gd_m data + 1) (gm_V model) (gm_K model - 1)) U (gm_K model) i j'))"
proof -
  have b: "predict_labels_body (Some 1000000000) U (gd_n data) (gd_m data) (gm_K model)
      (gd_Z data) (gm_V model) = Some predy"
    using assms(1) by (simp add: gensvm_predict_labels_linear_def)
  let ?ZV = "cblas_dgemm (gd_n data) (gm_K model - 1) (gd_m data + 1)
              (gd_Z data) (gd_m data + 1) (gm_V model) (gm_K model - 1)"
  have e: "predy ! i = nearest_label (Some 1000000000) ?ZV U (gm_K model) i"
    using predict_labels_body_nth[OF b assms(2)] by simp
  show ?thesis
    using nearest_label_sentinel[of 1000000000 ?ZV U "gm_K model" i] unfolding e by blast
qed

lemmas predict_eval_defs =
  gensvm_predict_labels_linear_def gensvm_predict_labels_def predict_labels_body_def
  example_gen_data_def example_gen_model_def cblas_dgemm_def nearest_label_def vertex_step_def
  vertex_dist_def cblas_dnrm2_def matrix_get_def less_dist_def upt_2 Let_def

text \<open>
  C2: in the linear and in the kernel path the predicted label is \<open>j + 1\<close> for the first
  vertex \<open>j\<close> nearest to row \<open>i\<close> of \<open>Z V\<close>. In \<^verbatim>\<open>gensvm_predict_labels_linear\<close> the search
  starts from the distance 1000000000 rather than from infinity: for the test instance
  with the feature 3000000000 and the weights \<open>V = (0, 1)\<close> the row of \<open>Z V\<close> is
  3000000000, vertex 1 is the nearest one, and the label is 0 instead of 2. The second
  version of \<^verbatim>\<open>gensvm_predict_labels\<close>, which starts from \<^verbatim>\<open>INFINITY\<close>, returns 2.
\<close>

theorem predict_linear_misses_nearest_vertex:
  "gensvm_predict_labels_linear [- 1 / 2, 1 / 2] (example_gen_data 1 [1, 3000000000])
     (example_gen_model [0, 1]) = Some [0]
   \<and> cblas_dgemm 1 1 2 [1, 3000000000] 2 [0, 1] 1 = [3000000000]
   \<and> vertex_dist [3000000000] [- 1 / 2, 1 / 2] 2 0 1 < vertex_dist [3000000000] [- 1 / 2, 1 / 2] 2 0 0
   \<and> gensvm_predict_labels [- 1 / 2, 1 / 2] (example_gen_data 1 [1, 3000000000])
       (example_gen_model [0, 1]) = Some [2]"
  by (simp add: predict_eval_defs)

text \<open>
  C9: every label written into \<^verbatim>\<open>predy\<close> lies in \<open>[1, K]\<close>. With \<open>K = 2\<close> and the test
  instances with the features 1 and -2000000000, \<^verbatim>\<open>gensvm_predict_labels_linear\<close>
  writes the labels 2 and 0: no vertex is nearer to the second instance than the
  initial minimum distance 1000000000, so no comparison succeeds. The second version
  of \<^verbatim>\<open>gensvm_predict_labels\<close> writes 2 and 1.
\<close>

theorem predict_linear_label_zero:
  "gensvm_predict_labels_linear [- 1 / 2, 1 / 2]
     (example_gen_data 2 [1, 1, 1, - 2000000000]) (example_gen_model [0, 1]) = Some [2, 0]
   \<and> gm_K (example_gen_model [0, 1]) = 2
   \<and> gensvm_predict_labels [- 1 / 2, 1 / 2]
       (example_gen_data 2 [1, 1, 1, - 2000000000]) (example_gen_model [0, 1]) = Some [2, 1]"
  by (simp add: predict_eval_defs)

subsection \<open>Copying a task\<close>

lemma copy_kernelparam_ok:
  assumes "h_read h src = Some kp" and "k \<le> length kp"
  shows "copy_kernelparam h src k =
           Inr (h\<lparr>mem_arrays := mem_arrays h @ [Some (take k kp)]\<rparr>, Some (length (mem_arrays h)))"
  using assms by (simp add: copy_kernelparam_def h_alloc_def)

lemma h_read_live:
  "h_read h p = Some kp \<Longrightarrow> \<exists>a. p = Some a \<and> a < length (mem_arrays h) \<and> mem_arrays h ! a = Some kp"
  by (auto simp: h_read_def split: option.splits if_splits)

lemma copy_task_linear:
  "gt_kerneltype t = K_LINEAR \<Longrightarrow>
     gensvm_copy_task h t = Inr (h, (t\<lparr>gt_kernelparam := None\<rparr>))"
  by (simp add: gensvm_copy_task_def gensvm_init_task_def Let_def)

lemma copy_task_nonlinear:
  assumes "gt_kerneltype t \<noteq> K_LINEAR"
    and "h_read h (gt_kernelparam t) = Some kp"
    and "kernelparam_len (gt_kerneltype t) \<le> length kp"
  shows "gensvm_copy_task h t =
     Inr (h\<lparr>mem_arrays := mem_arrays h @ [Some (take (kernelparam_len (gt_kerneltype t)) kp)]\<rparr>,
          t\<lparr>gt_kernelparam := Some (length (mem_arrays h))\<rparr>)"
  using assms
  by (cases "gt_kerneltype t")
     (simp_all add: gensvm_copy_task_def gensvm_init_task_def Let_def kernelparam_len_def
        copy_kernelparam_ok)

text \<open>
  C7: for every task \<open>t\<close> (whose parameter pointer, unless the kernel is linear, is a
  live array of at least 1 (RBF), 3 (polynomial) or 2 (sigmoid) doubles),
  \<^verbatim>\<open>gensvm_copy_task\<close> returns a task with the same kernel type, weight index, folds,
  ID, \<open>p\<close>, \<open>kappa\<close>, \<open>lambda\<close>, \<open>epsilon\<close> and performance and the same pointers to the
  train and test data; the datasets in memory are untouched and so is the parameter
  array of \<open>t\<close>. The copy's parameter pointer is \<^verbatim>\<open>NULL\<close> for a linear kernel, and
  otherwise a block that did not exist before, of length 1, 3 or 2, holding the
  parameters of \<open>t\<close>; writing to it leaves the array of \<open>t\<close> unchanged.
\<close>

theorem copy_task_deep_copy:
  assumes "gt_kerneltype t = K_LINEAR
         \<or> (\<exists>kp. h_read h (gt_kernelparam t) = Some kp
                \<and> kernelparam_len (gt_kerneltype t) \<le> length kp)"
  shows "\<exists>h' nt. gensvm_copy_task h t = Inr (h', nt)
     \<and> gt_kerneltype nt = gt_kerneltype t \<and> gt_weight_idx nt = gt_weight_idx t
     \<and> gt_folds nt = gt_folds t \<and> gt_ID nt = gt_ID t \<and> gt_p nt = gt_p t
     \<and> gt_kappa nt = gt_kappa t \<and> gt_lambda nt = gt_lambda t \<and> gt_epsilon nt = gt_epsilon t
     \<and> gt_performance nt = gt_performance t
     \<and> gt_train_data nt = gt_train_data t \<and> gt_test_data nt = gt_test_data t
     \<and> mem_data h' = mem_data h
     \<and> h_read h' (gt_kernelparam t) = h_read h (gt_kernelparam t)
     \<and> (gt_kerneltype t = K_LINEAR \<longrightarrow> gt_kernelparam nt = None \<and> h' = h)
     \<and> (gt_kerneltype t \<noteq> K_LINEAR \<longrightarrow>
          (\<exists>a kp. gt_kernelparam nt = Some a
             \<and> \<not> a < length (mem_arrays h)
             \<and> gt_kernelparam t \<noteq> Some a
             \<and> h_read h (gt_kernelparam t) = Some kp
             \<and> h_read h' (Some a) = Some (take (kernelparam_len (gt_kerneltype t)) kp)
             \<and> length (take (kernelparam_len (gt_kerneltype t)) kp) =
                 kernelparam_len (gt_kerneltype t)
             \<and> (\<forall>xs. h_read (h_write h' a xs) (gt_kernelparam t) = Some kp)))"
proof (cases "gt_kerneltype t = K_LINEAR")
  case True
  show ?thesis
    unfolding copy_task_linear[OF True] using True by simp
next
  case False
  then obtain kp where rd: "h_read h (gt_kernelparam t) = Some kp"
    and ln: "kernelparam_len (gt_kerneltype t) \<le> length kp"
    using assms by blast
  obtain q where q: "gt_kernelparam t = Some q" "q < length (mem_arrays h)"
    "mem_arrays h ! q = Some kp"
    using h_read_live[OF rd] by blast
  show ?thesis
    unfolding copy_task_nonlinear[OF False rd ln]
    using False rd ln q by (auto simp: h_read_def h_write_def nth_append)
qed

theorem copy_task_deep_copy_witness:
  "gensvm_copy_task \<lparr>mem_arrays = [Some [1 / 2]], mem_data = [None]\<rparr>
     (gensvm_init_task\<lparr>gt_kerneltype := K_RBF, gt_kernelparam := Some 0, gt_ID := 7,
        gt_train_data := Some 0\<rparr>)
   = Inr (\<lparr>mem_arrays = [Some [1 / 2], Some [1 / 2]], mem_data = [None]\<rparr>,
          gensvm_init_task\<lparr>gt_kerneltype := K_RBF, gt_kernelparam := Some 1, gt_ID := 7,
            gt_train_data := Some 0\<rparr>)"
proof -
  let ?h = "\<lparr>mem_arrays = [Some [1 / 2]], mem_data = [None]\<rparr>"
  let ?t = "gensvm_init_task\<lparr>gt_kerneltype := K_RBF, gt_kernelparam := Some 0, gt_ID := 7,
        gt_train_data := Some 0\<rparr>"
  have pre: "gt_kerneltype ?t = K_LINEAR
         \<or> (\<exists>kp. h_read ?h (gt_kernelparam ?t) = Some kp
                \<and> kernelparam_len (gt_kerneltype ?t) \<le> length kp)"
    by (simp add: h_read_def kernelparam_len_def)
  show ?thesis
    using copy_task_deep_copy[OF pre]
    by (simp add: gensvm_copy_task_def gensvm_init_task_def copy_kernelparam_def h_read_def
        h_alloc_def Let_def)
qed


subsection \<open>Reading labels\<close>

lemma ceiling_neg_one_real: "\<lceil>- 1 :: real\<rceil> = - 1"
  by (simp add: ceiling_minus)

lemmas read_data_eval_defs =
  msvmmaj_read_data_def read_label_def c_long_def maximum_def minimum_def
  ceiling_neg_one_real Let_def

text \<open>
  C8: after \<^verbatim>\<open>msvmmaj_read_data\<close> has read a labelled dataset with non-negative raw
  labels, every label is in \<open>[1, K]\<close>; a minimum raw label 0 shifts all labels up by one,
  and a negative raw label is fatal. The loop that computes \<open>K\<close> and the minimum starts
  at the second line, so the label of the first line enters neither: the labels
  3, 1, 2 give \<open>K = 2\<close> with the label 3 kept; the labels 0, 1, 2 are not shifted and
  the label 0 is kept; the labels -1, 1, 2 are accepted. When the same values stand on
  a later line (1, 0, 2 and 1, -1, 2) the code shifts, and rejects, as the claim says.
\<close>

theorem read_data_first_label_unchecked:
  "msvmmaj_read_data 3 [1, 2] = Inr ([3, 1, 2], 2)
   \<and> msvmmaj_read_data 0 [1, 2] = Inr ([0, 1, 2], 2)
   \<and> msvmmaj_read_data (- 1) [1, 2] = Inr ([- 1, 1, 2], 2)
   \<and> msvmmaj_read_data 1 [0, 2] = Inr ([2, 1, 3], 3)
   \<and> msvmmaj_read_data 1 [- 1, 2] = Inl (WrongLabels (- 1))"
  by (simp add: read_data_eval_defs)

subsection \<open>Resizing a model\<close>

lemma realloc_same:
  "msvmmaj_reallocate_model avail fresh model (mm_n model) (mm_m model) = Inr model"
  by (simp add: msvmmaj_reallocate_model_def)

lemma reallocate_n_Inr:
  assumes "reallocate_n avail fresh model n = Inr model'"
  shows "model' = model\<lparr>mm_UU := c_realloc fresh (mm_UU model) (n * mm_K model * (mm_K model - 1)),
                        mm_Q := c_realloc fresh (mm_Q model) (n * mm_K model),
                        mm_H := c_realloc fresh (mm_H model) (n * mm_K model),
                        mm_R := c_realloc fresh (mm_R model) (n * mm_K model),
                        mm_rho := c_realloc fresh (mm_rho model) n,
                        mm_n := n\<rparr>"
  using assms
  by (auto simp: reallocate_n_def bind_err_def realloc_checked_def Let_def
           split: if_splits sum.splits)

lemma reallocate_only_n:
  assumes "n \<noteq> mm_n model"
    and "msvmmaj_reallocate_model avail fresh model n (mm_m model) = Inr model'"
  shows "reallocate_n avail fresh model n = Inr model'"
proof -
  obtain mo where mo: "reallocate_n avail fresh model n = Inr mo"
    using assms
    by (auto simp: msvmmaj_reallocate_model_def bind_err_def split: sum.splits if_splits)
  have "mm_m mo = mm_m model" using reallocate_n_Inr[OF mo] by simp
  then have "mo = model'"
    using assms mo by (auto simp: msvmmaj_reallocate_model_def bind_err_def)
  then show ?thesis using mo by simp
qed

text \<open>
  C10: \<^verbatim>\<open>msvmmaj_reallocate_model\<close> called with the \<open>n\<close> and \<open>m\<close> of the model returns
  the model unchanged; and when only \<open>n\<close> differs and the call returns, the model is the
  old one with new buffers \<open>UU\<close>, \<open>Q\<close>, \<open>H\<close>, \<open>R\<close>, \<open>rho\<close> of \<open>n * K * (K - 1)\<close>, \<open>n * K\<close>,
  \<open>n * K\<close>, \<open>n * K\<close> and \<open>n\<close> cells and with the new \<open>n\<close>: \<open>W\<close>, \<open>t\<close>, \<open>V\<close>, \<open>Vbar\<close>, \<open>U\<close> and
  the hyperparameters are as before. The new buffers keep the old contents as far as
  they reach; nothing is said of the cells that are new.
\<close>

theorem reallocate_model_frame:
  "msvmmaj_reallocate_model avail fresh model (mm_n model) (mm_m model) = Inr model
   \<and> (n \<noteq> mm_n model \<and> msvmmaj_reallocate_model avail fresh model n (mm_m model) = Inr model'
      \<longrightarrow>
        (\<exists>UU Q H R rho.
           model' = model\<lparr>mm_UU := UU, mm_Q := Q, mm_H := H, mm_R := R, mm_rho := rho, mm_n := n\<rparr>
         \<and> length UU = n * mm_K model * (mm_K model - 1)
         \<and> length Q = n * mm_K model \<and> length H = n * mm_K model
         \<and> length R = n * mm_K model \<and> length rho = n
         \<and> take (length (mm_UU model)) UU = take (n * mm_K model * (mm_K model - 1)) (mm_UU model)
         \<and> take (length (mm_Q model)) Q = take (n * mm_K model) (mm_Q model)
         \<and> take (length (mm_H model)) H = take (n * mm_K model) (mm_H model)
         \<and> take (length (mm_R model)) R = take (n * mm_K model) (mm_R model)
         \<and> take (length (mm_rho model)) rho = take n (mm_rho model))
      \<and> mm_W model' = mm_W model \<and> mm_t model' = mm_t model \<and> mm_V model' = mm_V model
      \<and> mm_Vbar model' = mm_Vbar model \<and> mm_U model' = mm_U model
      \<and> mm_K model' = mm_K model \<and> mm_m model' = mm_m model
      \<and> mm_weight_idx model' = mm_weight_idx model \<and> mm_epsilon model' = mm_epsilon model
      \<and> mm_p model' = mm_p model \<and> mm_kappa model' = mm_kappa model
      \<and> mm_lambda model' = mm_lambda model \<and> mm_kerneltype model' = mm_kerneltype model
      \<and> mm_kernelparam model' = mm_kernelparam model
      \<and> mm_use_cholesky model' = mm_use_cholesky model
      \<and> mm_n model' = n
      \<and> length (mm_UU model') = n * mm_K model * (mm_K model - 1)
      \<and> length (mm_Q model') = n * mm_K model \<and> length (mm_H model') = n * mm_K model
      \<and> length (mm_R model') = n * mm_K model \<and> length (mm_rho model') = n)"
proof (intro conjI impI)
  show "msvmmaj_reallocate_model avail fresh model (mm_n model) (mm_m model) = Inr model"
    by (rule realloc_same)
next
  assume a: "n \<noteq> mm_n model \<and> msvmmaj_reallocate_model avail fresh model n (mm_m model) = Inr model'"
  let ?UU = "c_realloc fresh (mm_UU model) (n * mm_K model * (mm_K model - 1))"
  let ?Q = "c_realloc fresh (mm_Q model) (n * mm_K model)"
  let ?H = "c_realloc fresh (mm_H model) (n * mm_K model)"
  let ?R = "c_realloc fresh (mm_R model) (n * mm_K model)"
  let ?rho = "c_realloc fresh (mm_rho model) n"
  have eq: "model' = model\<lparr>mm_UU := ?UU, mm_Q := ?Q, mm_H := ?H, mm_R := ?R, mm_rho := ?rho,
                          mm_n := n\<rparr>"
    using a by (intro reallocate_n_Inr[of avail fresh] reallocate_only_n) simp_all
  have "model' = model\<lparr>mm_UU := ?UU, mm_Q := ?Q, mm_H := ?H, mm_R := ?R, mm_rho := ?rho,
                          mm_n := n\<rparr>
         \<and> length ?UU = n * mm_K model * (mm_K model - 1)
         \<and> length ?Q = n * mm_K model \<and> length ?H = n * mm_K model
         \<and> length ?R = n * mm_K model \<and> length ?rho = n
         \<and> take (length (mm_UU model)) ?UU = take (n * mm_K model * (mm_K model - 1)) (mm_UU model)
         \<and> take (length (mm_Q model)) ?Q = take (n * mm_K model) (mm_Q model)
         \<and> take (length (mm_H model)) ?H = take (n * mm_K model) (mm_H model)
         \<and> take (length (mm_R model)) ?R = take (n * mm_K model) (mm_R model)
         \<and> take (length (mm_rho model)) ?rho = take n (mm_rho model)"
    using eq by (simp only: length_c_realloc c_realloc_prefix simp_thms)
  then show "\<exists>UU Q H R rho.
           model' = model\<lparr>mm_UU := UU, mm_Q := Q, mm_H := H, mm_R := R, mm_rho := rho, mm_n := n\<rparr>
         \<and> length UU = n * mm_K model * (mm_K model - 1)
         \<and> length Q = n * mm_K model \<and> length H = n * mm_K model
         \<and> length R = n * mm_K model \<and> length rho = n
         \<and> take (length (mm_UU model)) UU = take (n * mm_K model * (mm_K model - 1)) (mm_UU model)
         \<and> take (length (mm_Q model)) Q = take (n * mm_K model) (mm_Q model)
         \<and> take (length (mm_H model)) H = take (n * mm_K model) (mm_H model)
         \<and> take (length (mm_R model)) R = take (n * mm_K model) (mm_R model)
         \<and> take (length (mm_rho model)) rho = take n (mm_rho model)"
    by blast
  show "mm_W model' = mm_W model" "mm_t model' = mm_t model" "mm_V model' = mm_V model"
    "mm_Vbar model' = mm_Vbar model" "mm_U model' = mm_U model" "mm_K model' = mm_K model"
    "mm_m model' = mm_m model" "mm_weight_idx model' = mm_weight_idx model"
    "mm_epsilon model' = mm_epsilon model" "mm_p model' = mm_p model"
    "mm_kappa model' = mm_kappa model" "mm_lambda model' = mm_lambda model"
    "mm_kerneltype model' = mm_kerneltype model" "mm_kernelparam model' = mm_kernelparam model"
    "mm_use_cholesky model' = mm_use_cholesky model" "mm_n model' = n"
    by (simp_all add: eq)
  show "length (mm_UU model') = n * mm_K model * (mm_K model - 1)"
    "length (mm_Q model') = n * mm_K model" "length (mm_H model') = n * mm_K model"
    "length (mm_R model') = n * mm_K model" "length (mm_rho model') = n"
    by (simp_all add: eq length_c_realloc)
qed

theorem reallocate_model_frame_witness:
  "\<exists>model'. msvmmaj_reallocate_model (\<lambda>sz. True) (\<lambda>k. 15 / 2) (example_model 2 K_LINEAR None) 3 1
       = Inr model'
     \<and> mm_n model' = 3 \<and> length (mm_rho model') = 3 \<and> take 2 (mm_rho model') = [1, 1]
     \<and> length (mm_UU model') = 6 \<and> mm_V model' = [0, 0] \<and> mm_U model' = [- 1 / 2, 1 / 2]
     \<and> mm_m model' = 1"
proof -
  let ?fr = "\<lambda>k::nat. 15 / 2 :: real"
  let ?mo = "example_model 2 K_LINEAR None"
  let ?mo' = "?mo\<lparr>mm_UU := c_realloc ?fr (mm_UU ?mo) 6, mm_Q := c_realloc ?fr (mm_Q ?mo) 6,
                   mm_H := c_realloc ?fr (mm_H ?mo) 6, mm_R := c_realloc ?fr (mm_R ?mo) 6,
                   mm_rho := c_realloc ?fr (mm_rho ?mo) 3, mm_n := 3\<rparr>"
  have ev: "msvmmaj_reallocate_model (\<lambda>sz. True) ?fr ?mo 3 (mm_m ?mo) = Inr ?mo'"
    by (simp add: msvmmaj_reallocate_model_def reallocate_n_def bind_err_def
        realloc_checked_def example_model_def Let_def)
  have m: "mm_m ?mo = 1" and n: "(3::nat) \<noteq> mm_n ?mo" by (simp_all add: example_model_def)
  have K: "mm_K ?mo = 2" and rho: "mm_rho ?mo = [1, 1]"
    by (simp_all add: example_model_def replicate_2)
  show ?thesis
    using reallocate_model_frame[of "\<lambda>sz. True" ?fr ?mo 3 ?mo'] ev n unfolding m K rho
    by (auto simp: example_model_def numeral_2_eq_2)
qed

end
